theory Spec2Isabelle
  imports Complex_Main
begin

section \<open>Machine integers\<close>

text \<open>
  A C \<open>int\<close> is 32 bits wide. Values are kept as \<open>int\<close>; where the source adds to a
  value that may be near \<open>INT_MAX\<close> the two's-complement wrap-around is written out.
\<close>

definition INT_MAX :: int where
  "INT_MAX = 2147483647"

definition int32_wrap :: "int \<Rightarrow> int" where
  "int32_wrap x = (x + 2147483648) mod 4294967296 - 2147483648"

text \<open>
  C division of \<open>int\<close> truncates towards zero; HOL's \<open>div\<close> rounds down.
\<close>

definition c_div :: "int \<Rightarrow> int \<Rightarrow> int" where
  "c_div a b = sgn a * sgn b * (\<bar>a\<bar> div \<bar>b\<bar>)"

section \<open>asset\_library.cc: the list of valid library references\<close>

text \<open>
  \<open>eAssetLibraryType\<close> and \<open>AssetLibraryReference\<close> come from the DNA headers; the
  source uses the four enumerators below and the two fields \<open>custom_library_index\<close> and
  \<open>type\<close>. Of \<open>bUserAssetLibrary\<close> only \<open>dirpath\<close> is read.
\<close>

datatype eAssetLibraryType =
  ASSET_LIBRARY_LOCAL | ASSET_LIBRARY_ESSENTIALS | ASSET_LIBRARY_CUSTOM | ASSET_LIBRARY_ALL

record AssetLibraryReference =
  custom_library_index :: int
  type :: eAssetLibraryType

record bUserAssetLibrary =
  dirpath :: string

text \<open>
  \<open>LISTBASE_FOREACH_INDEX (..., asset_library, &U.asset_libraries, i)\<close>: the loop walks the
  list from its first element, \<open>i\<close> starts at 0 and is incremented after every element,
  skipped or not. \<open>BLI_is_dir\<close> asks the file system and is a parameter.
\<close>

fun all_valid_loop ::
  "(string \<Rightarrow> bool) \<Rightarrow> int \<Rightarrow> 'a bUserAssetLibrary_scheme list \<Rightarrow>
   AssetLibraryReference list \<Rightarrow> AssetLibraryReference list" where
  "all_valid_loop BLI_is_dir i [] result = result"
| "all_valid_loop BLI_is_dir i (asset_library # rest) result =
     (if \<not> BLI_is_dir (dirpath asset_library)
      then all_valid_loop BLI_is_dir (int32_wrap (i + 1)) rest result
      else all_valid_loop BLI_is_dir (int32_wrap (i + 1)) rest
             (result @ [\<lparr>custom_library_index = i, type = ASSET_LIBRARY_CUSTOM\<rparr>]))"

definition all_valid_asset_library_refs ::
  "(string \<Rightarrow> bool) \<Rightarrow> 'a bUserAssetLibrary_scheme list \<Rightarrow> AssetLibraryReference list" where
  "all_valid_asset_library_refs BLI_is_dir U_asset_libraries =
     (let result = [\<lparr>custom_library_index = -1, type = ASSET_LIBRARY_ESSENTIALS\<rparr>];
          result = all_valid_loop BLI_is_dir 0 U_asset_libraries result
      in result @ [\<lparr>custom_library_index = -1, type = ASSET_LIBRARY_LOCAL\<rparr>])"

definition all_library_reference :: AssetLibraryReference where
  "all_library_reference = \<lparr>custom_library_index = -1, type = ASSET_LIBRARY_ALL\<rparr>"

section \<open>C strings and bounded copies\<close>

text \<open>
  A \<open>char\<close> array is a list of characters whose length is the size of the array; the
  C string stored at an offset runs up to the first NUL from there. The string handed out by
  \<open>std::string::c_str\<close> ends at the first NUL of the contents.
\<close>

definition NUL :: char where
  "NUL = CHR 0x00"

definition c_string_at :: "char list \<Rightarrow> nat \<Rightarrow> string" where
  "c_string_at buf off = takeWhile (\<lambda>c. c \<noteq> NUL) (drop off buf)"

definition c_str :: "string \<Rightarrow> string" where
  "c_str s = takeWhile (\<lambda>c. c \<noteq> NUL) s"

text \<open>
  Modelled from the spec: \<open>BLI_strncpy(dst, src, maxncpy)\<close> and the macro \<open>STRNCPY\<close> of
  BLI\_string are not among the sources; they are the bounded copy that the call with the
  buffer size 1090 asks for. \<open>BLI_strncpy\<close> copies at most \<open>maxncpy - 1\<close> characters of
  the C string \<open>src\<close> to the start of \<open>dst\<close> and writes a NUL after them; the rest of
  \<open>dst\<close> keeps its contents. The library asserts \<open>maxncpy \<noteq> 0\<close>; both callers pass the
  size of a non-empty array. The macro \<open>STRNCPY(dst, src)\<close> is
  \<open>BLI_strncpy(dst, src, ARRAY_SIZE(dst))\<close>.
\<close>

definition BLI_strncpy :: "char list \<Rightarrow> string \<Rightarrow> nat \<Rightarrow> char list" where
  "BLI_strncpy dst src maxncpy =
     (let srclen = min (length src) (maxncpy - 1)
      in take srclen src @ [NUL] @ drop (srclen + 1) dst)"

definition STRNCPY :: "char list \<Rightarrow> string \<Rightarrow> char list" where
  "STRNCPY dst src = BLI_strncpy dst src (length dst)"

section \<open>asset\_library.cc: refreshing the simple name of a catalog\<close>

text \<open>
  \<open>AssetMetaData\<close> (DNA) has the catalog id, the fixed-size array \<open>catalog_simple_name\<close>
  and further fields that the function never mentions; they are the extension part of the
  record. The UUID type, \<open>BLI_uuid_is_nil\<close> and the catalog service's \<open>find_catalog\<close>
  belong to other modules and are parameters; \<open>find_catalog\<close> returns \<open>None\<close> for the
  null pointer.
\<close>

record 'uuid AssetMetaData =
  catalog_id :: 'uuid
  catalog_simple_name :: "char list"

record AssetCatalog =
  simple_name :: string

definition refresh_catalog_simplename ::
  "('uuid \<Rightarrow> bool) \<Rightarrow> ('cs \<Rightarrow> 'uuid \<Rightarrow> 'c AssetCatalog_scheme option) \<Rightarrow> 'cs \<Rightarrow>
   ('uuid, 'm) AssetMetaData_scheme \<Rightarrow> ('uuid, 'm) AssetMetaData_scheme" where
  "refresh_catalog_simplename BLI_uuid_is_nil find_catalog catalog_service asset_data =
     (if BLI_uuid_is_nil (catalog_id asset_data)
      then asset_data\<lparr>catalog_simple_name := (catalog_simple_name asset_data)[0 := NUL]\<rparr>
      else (case find_catalog catalog_service (catalog_id asset_data) of
              None \<Rightarrow> asset_data
            | Some catalog \<Rightarrow>
                asset_data\<lparr>catalog_simple_name :=
                  STRNCPY (catalog_simple_name asset_data) (c_str (simple_name catalog))\<rparr>))"

section \<open>AS\_asset\_representation.hh: asset representations\<close>

text \<open>
  The class stores a reference to its owning library, the identifier of the asset inside
  that library, the constant flag \<open>is_local_id_\<close> and an anonymous union of the external
  asset data and the (non-owning, nullable) pointer to a local ID.
\<close>

record 'md ExternalAsset =
  name :: string
  id_type :: int
  metadata_' :: 'md

datatype ('id, 'md) asset_union =
  external_asset_' "'md ExternalAsset"
| local_asset_id_' "'id option"

record ('id, 'md, 'l) AssetRepresentation =
  owner_asset_library_' :: 'l
  relative_identifier_' :: string
  is_local_id_' :: bool
  asset_union_' :: "('id, 'md) asset_union"

text \<open>
  Modelled from the spec: the header declares the two constructors, but their bodies
  (asset\_representation.cc) are not among the sources. The constructor "for an external ID"
  holds a name, an id type and metadata and leaves the flag at its default \<open>false\<close>.
\<close>

definition AssetRepresentation_external ::
  "string \<Rightarrow> string \<Rightarrow> int \<Rightarrow> 'md \<Rightarrow> 'l \<Rightarrow> ('id, 'md, 'l) AssetRepresentation" where
  "AssetRepresentation_external relative_asset_path nm id_ty metadata owner_asset_library =
     \<lparr>owner_asset_library_' = owner_asset_library,
      relative_identifier_' = relative_asset_path,
      is_local_id_' = False,
      asset_union_' = external_asset_' \<lparr>name = nm, id_type = id_ty, metadata_' = metadata\<rparr>\<rparr>"

text \<open>
  Modelled from the spec: the constructor "for an ID stored in the current file" wraps the
  address of the ID it is given by reference and makes the asset local.
\<close>

definition AssetRepresentation_local ::
  "string \<Rightarrow> 'id \<Rightarrow> 'l \<Rightarrow> ('id, 'md, 'l) AssetRepresentation" where
  "AssetRepresentation_local relative_asset_path idp owner_asset_library =
     \<lparr>owner_asset_library_' = owner_asset_library,
      relative_identifier_' = relative_asset_path,
      is_local_id_' = True,
      asset_union_' = local_asset_id_' (Some idp)\<rparr>"

text \<open>
  Modelled from the spec: \<open>is_local_id()\<close> "returns if this asset is stored inside this
  current file"; its body is not among the sources.
\<close>

definition is_local_id :: "('id, 'md, 'l) AssetRepresentation \<Rightarrow> bool" where
  "is_local_id asset = is_local_id_' asset"

text \<open>
  Modelled from the spec: "if this asset is stored inside this current file
  (\<open>is_local_id()\<close> is true), this returns the ID's pointer, otherwise null"; the body is
  not among the sources. \<open>None\<close> is the null pointer.
\<close>

definition local_id :: "('id, 'md, 'l) AssetRepresentation \<Rightarrow> 'id option" where
  "local_id asset =
     (if is_local_id_' asset
      then (case asset_union_' asset of local_asset_id_' idp \<Rightarrow> idp | external_asset_' _ \<Rightarrow> None)
      else None)"

section \<open>asset\_library.cc: the asset library and its storage\<close>

text \<open>
  Asset representations live on the heap behind \<open>std::shared_ptr\<close>: a heap cell holds the
  object and the number of shared pointers that own it; the object is destroyed when the
  last owner goes away. A \<open>std::weak_ptr\<close> names a cell without owning it.
\<close>

type_synonym addr = nat

record ('id, 'md, 'l) shared_object =
  object :: "('id, 'md, 'l) AssetRepresentation"
  use_count :: nat

type_synonym ('id, 'md, 'l) heap = "addr \<rightharpoonup> ('id, 'md, 'l) shared_object"

datatype weak_ptr = weak_ptr addr

definition make_shared ::
  "addr \<Rightarrow> ('id, 'md, 'l) AssetRepresentation \<Rightarrow> ('id, 'md, 'l) heap \<Rightarrow> ('id, 'md, 'l) heap" where
  "make_shared p asset h = h(p \<mapsto> \<lparr>object = asset, use_count = 1\<rparr>)"

definition shared_ptr_release :: "addr \<Rightarrow> ('id, 'md, 'l) heap \<Rightarrow> ('id, 'md, 'l) heap" where
  "shared_ptr_release p h =
     (case h p of
        None \<Rightarrow> h
      | Some cell \<Rightarrow>
          if use_count cell \<le> 1 then h(p := None)
          else h(p \<mapsto> cell\<lparr>use_count := use_count cell - 1\<rparr>))"

text \<open>
  Modelled from the spec: the class declaration (AS\_asset\_library.hh) and \<open>blender::Set\<close>
  (BLI\_set.hh) are not among the sources; the members are those that asset\_library.cc
  uses. \<open>AssetStorage\<close> keeps two \<open>Set<std::shared_ptr<AssetRepresentation>>\<close>, keyed
  by the address of the object. A set is the list of its keys, without repetition; the order
  stands for the iteration order of the hash set. The mutex guarding the catalog service is
  its history of operations; further members of the library are the extension part of the
  record.
\<close>

record AssetStorage =
  external_assets :: "addr list"
  local_id_assets :: "addr list"

datatype mutex_op = Lock | Unlock

record 'cs AssetLibrary =
  library_type_' :: eAssetLibraryType
  name_' :: string
  root_path_' :: string
  catalog_service_' :: 'cs
  catalog_service_mutex_' :: "mutex_op list"
  storage_' :: AssetStorage


text \<open>
  \<open>lookup_key_or_add\<close> moves the new shared pointer into the set and returns a reference to
  the stored key, from which the weak pointer is made; were an equal key present already, the
  set would stay as it is and the temporary shared pointer would be dropped. \<open>p\<close> is the
  address at which \<open>std::make_shared\<close> places the new object.
\<close>

definition add_external_asset ::
  "'l \<Rightarrow> addr \<Rightarrow> string \<Rightarrow> string \<Rightarrow> int \<Rightarrow> 'md \<Rightarrow>
   ('id, 'md, 'l) heap \<times> ('cs, 'x) AssetLibrary_scheme \<Rightarrow>
   weak_ptr \<times> ('id, 'md, 'l) heap \<times> ('cs, 'x) AssetLibrary_scheme" where
  "add_external_asset this p relative_asset_path nm id_ty metadata st =
     (let (h, lib) = st;
          h = make_shared p (AssetRepresentation_external relative_asset_path nm id_ty metadata this) h;
          keys = external_assets (storage_' lib)
      in if p \<in> set keys then (weak_ptr p, shared_ptr_release p h, lib)
         else (weak_ptr p, h,
               lib\<lparr>storage_' := (storage_' lib)\<lparr>external_assets := keys @ [p]\<rparr>\<rparr>))"

definition add_local_id_asset ::
  "'l \<Rightarrow> addr \<Rightarrow> string \<Rightarrow> 'id \<Rightarrow>
   ('id, 'md, 'l) heap \<times> ('cs, 'x) AssetLibrary_scheme \<Rightarrow>
   weak_ptr \<times> ('id, 'md, 'l) heap \<times> ('cs, 'x) AssetLibrary_scheme" where
  "add_local_id_asset this p relative_asset_path idp st =
     (let (h, lib) = st;
          h = make_shared p (AssetRepresentation_local relative_asset_path idp this) h;
          keys = local_id_assets (storage_' lib)
      in if p \<in> set keys then (weak_ptr p, shared_ptr_release p h, lib)
         else (weak_ptr p, h,
               lib\<lparr>storage_' := (storage_' lib)\<lparr>local_id_assets := keys @ [p]\<rparr>\<rparr>))"

text \<open>
  \<open>remove_as(&asset)\<close> erases the key with that address, destroying the stored shared
  pointer, and tells whether it was there.
\<close>

definition remove_asset ::
  "addr \<Rightarrow> ('id, 'md, 'l) heap \<times> ('cs, 'x) AssetLibrary_scheme \<Rightarrow>
   bool \<times> ('id, 'md, 'l) heap \<times> ('cs, 'x) AssetLibrary_scheme" where
  "remove_asset asset st =
     (let (h, lib) = st in
      if asset \<in> set (local_id_assets (storage_' lib))
      then (True, shared_ptr_release asset h,
            lib\<lparr>storage_' := (storage_' lib)\<lparr>local_id_assets :=
                   remove1 asset (local_id_assets (storage_' lib))\<rparr>\<rparr>)
      else if asset \<in> set (external_assets (storage_' lib))
      then (True, shared_ptr_release asset h,
            lib\<lparr>storage_' := (storage_' lib)\<lparr>external_assets :=
                   remove1 asset (external_assets (storage_' lib))\<rparr>\<rparr>)
      else (False, h, lib))"

text \<open>
  \<open>remap_ids_and_remove_invalid\<close>: the remapper (BKE\_lib\_remap) is a parameter that maps
  the current ID pointer to the result code and the new pointer. The first loop rewrites
  the pointer of every local asset (using the library's friend access) and collects the
  assets whose ID became unassigned; the second loop removes them. A failing
  \<open>BLI_assert\<close> and a dangling key are errors.
\<close>

datatype IDRemapperApplyResult =
  ID_REMAP_RESULT_SOURCE_UNAVAILABLE
| ID_REMAP_RESULT_SOURCE_NOT_MAPPABLE
| ID_REMAP_RESULT_SOURCE_REMAPPED
| ID_REMAP_RESULT_SOURCE_UNASSIGNED

datatype error = Assertion_failed | Out_of_bounds | Dangling_pointer

fun remap_loop ::
  "('id option \<Rightarrow> IDRemapperApplyResult \<times> 'id option) \<Rightarrow> addr list \<Rightarrow>
   ('id, 'md, 'l) heap \<Rightarrow> addr list \<Rightarrow> error + ('id, 'md, 'l) heap \<times> addr list" where
  "remap_loop mappings_apply [] h removed_assets = Inr (h, removed_assets)"
| "remap_loop mappings_apply (asset_ptr # rest) h removed_assets =
     (case h asset_ptr of
        None \<Rightarrow> Inl Dangling_pointer
      | Some cell \<Rightarrow>
          if \<not> is_local_id (object cell) then Inl Assertion_failed
          else (case asset_union_' (object cell) of
                  external_asset_' _ \<Rightarrow> Inl Assertion_failed
                | local_asset_id_' idp \<Rightarrow>
                    (let (result, idp) = mappings_apply idp;
                         h = h(asset_ptr \<mapsto>
                               cell\<lparr>object := (object cell)\<lparr>asset_union_' := local_asset_id_' idp\<rparr>\<rparr>)
                     in remap_loop mappings_apply rest h
                          (if result = ID_REMAP_RESULT_SOURCE_UNASSIGNED
                           then List.insert asset_ptr removed_assets
                           else removed_assets))))"

fun remove_loop ::
  "addr list \<Rightarrow> ('id, 'md, 'l) heap \<times> ('cs, 'x) AssetLibrary_scheme \<Rightarrow>
   ('id, 'md, 'l) heap \<times> ('cs, 'x) AssetLibrary_scheme" where
  "remove_loop [] st = st"
| "remove_loop (asset # rest) st = remove_loop rest (snd (remove_asset asset st))"

definition remap_ids_and_remove_invalid ::
  "('id option \<Rightarrow> IDRemapperApplyResult \<times> 'id option) \<Rightarrow>
   ('id, 'md, 'l) heap \<times> ('cs, 'x) AssetLibrary_scheme \<Rightarrow>
   error + ('id, 'md, 'l) heap \<times> ('cs, 'x) AssetLibrary_scheme" where
  "remap_ids_and_remove_invalid mappings_apply st =
     (let (h, lib) = st in
      case remap_loop mappings_apply (local_id_assets (storage_' lib)) h [] of
        Inl e \<Rightarrow> Inl e
      | Inr (h, removed_assets) \<Rightarrow> Inr (remove_loop removed_assets (h, lib)))"

section \<open>asset\_library.cc: entry points on top of the asset library service\<close>

text \<open>
  \<open>AssetLibraryService\<close> is not among the sources. Its singleton accessor and the methods
  the entry points call are parameters acting on the rest of the program state \<open>'w\<close>; a
  nullable \<open>const char *\<close> is a \<open>string option\<close>.
\<close>

record ExplodedPath =
  full_path :: string
  dir_component :: string
  group_component :: string
  name_component :: string

record ('w, 'svc, 'lib, 'ref) AssetLibraryService =
  AssetLibraryService_get :: "'w \<Rightarrow> 'svc \<times> 'w"
  get_asset_library_current_file :: "'svc \<Rightarrow> 'w \<Rightarrow> 'lib \<times> 'w"
  get_asset_library_on_disk_custom :: "'svc \<Rightarrow> string option \<Rightarrow> string \<Rightarrow> 'w \<Rightarrow> 'lib \<times> 'w"
  resolve_asset_weak_reference_to_exploded_path ::
    "'svc \<Rightarrow> 'ref \<Rightarrow> 'w \<Rightarrow> ExplodedPath option \<times> 'w"

definition AS_asset_library_load ::
  "('w, 'svc, 'lib, 'ref) AssetLibraryService \<Rightarrow> string option \<Rightarrow> string option \<Rightarrow>
   'w \<Rightarrow> 'lib \<times> 'w" where
  "AS_asset_library_load api nm library_dirpath w =
     (let (service, w) = AssetLibraryService_get api w in
      case library_dirpath of
        None \<Rightarrow> get_asset_library_current_file api service w
      | Some path \<Rightarrow>
          if path = [] then get_asset_library_current_file api service w
          else get_asset_library_on_disk_custom api service nm path w)"

text \<open>
  The output pointers of \<open>AS_asset_full_path_explode_from_weak_ref\<close>: an argument of type
  \<open>char **\<close> is \<open>None\<close> when the caller passes null, else it holds the \<open>char *\<close> stored
  there, which is null or points into \<open>r_path_buffer\<close> at an offset. A write past the end
  of the buffer is an error, as is a failing \<open>BLI_assert\<close>.
\<close>

definition FILE_MAX_LIBEXTRA :: nat where
  "FILE_MAX_LIBEXTRA = 1090"

datatype char_ptr = nullptr | buffer_at nat

record explode_out =
  r_path_buffer :: "char list"
  r_dir :: "char_ptr option"
  r_group :: "char_ptr option"
  r_name :: "char_ptr option"

definition assign_out :: "char_ptr option \<Rightarrow> char_ptr \<Rightarrow> char_ptr option" where
  "assign_out r v = (case r of None \<Rightarrow> None | Some _ \<Rightarrow> Some v)"

definition buffer_set :: "char list \<Rightarrow> nat \<Rightarrow> char \<Rightarrow> error + char list" where
  "buffer_set buf i c = (if i < length buf then Inr (buf[i := c]) else Inl Out_of_bounds)"

definition explode_resolved :: "ExplodedPath \<Rightarrow> explode_out \<Rightarrow> error + explode_out" where
  "explode_resolved exploded out =
     (if group_component exploded = [] then Inl Assertion_failed
      else if name_component exploded = [] then Inl Assertion_failed
      else
        (let buf = BLI_strncpy (r_path_buffer out) (c_str (full_path exploded)) FILE_MAX_LIBEXTRA;
             dir_size = length (dir_component exploded);
             group_size = length (group_component exploded)
         in if dir_component exploded \<noteq> []
            then (case buffer_set buf dir_size NUL of
                    Inl e \<Rightarrow> Inl e
                  | Inr buf \<Rightarrow>
                      (case buffer_set buf (dir_size + 1 + group_size) NUL of
                         Inl e \<Rightarrow> Inl e
                       | Inr buf \<Rightarrow>
                           Inr \<lparr>r_path_buffer = buf,
                                r_dir = assign_out (r_dir out) (buffer_at 0),
                                r_group = assign_out (r_group out) (buffer_at (dir_size + 1)),
                                r_name = assign_out (r_name out)
                                           (buffer_at (dir_size + 1 + group_size + 1))\<rparr>))
            else (case buffer_set buf group_size NUL of
                    Inl e \<Rightarrow> Inl e
                  | Inr buf \<Rightarrow>
                      Inr \<lparr>r_path_buffer = buf,
                           r_dir = assign_out (r_dir out) nullptr,
                           r_group = assign_out (r_group out) (buffer_at 0),
                           r_name = assign_out (r_name out) (buffer_at (group_size + 1))\<rparr>)))"

definition AS_asset_full_path_explode_from_weak_ref ::
  "('w, 'svc, 'lib, 'ref) AssetLibraryService \<Rightarrow> 'ref \<Rightarrow> explode_out \<Rightarrow> 'w \<Rightarrow>
   (error + explode_out) \<times> 'w" where
  "AS_asset_full_path_explode_from_weak_ref api asset_reference out w =
     (let (service, w) = AssetLibraryService_get api w;
          (exploded, w) = resolve_asset_weak_reference_to_exploded_path api service asset_reference w
      in case exploded of
           None \<Rightarrow>
             (case buffer_set (r_path_buffer out) 0 NUL of
                Inl e \<Rightarrow> (Inl e, w)
              | Inr buf \<Rightarrow>
                  (Inr \<lparr>r_path_buffer = buf,
                        r_dir = assign_out (r_dir out) nullptr,
                        r_group = assign_out (r_group out) nullptr,
                        r_name = assign_out (r_name out) nullptr\<rparr>, w))
         | Some e \<Rightarrow> (explode_resolved e out, w))"

section \<open>asset\_library.cc: the remaining operations of the library and entry points\<close>









text \<open>
  The accessors. \<open>name()\<close> is \<open>AssetLibrary_name\<close> here, \<open>name\<close> being a field of
  \<open>ExternalAsset\<close>.
\<close>

definition catalog_service :: "('cs, 'x) AssetLibrary_scheme \<Rightarrow> 'cs" where
  "catalog_service this = catalog_service_' this"
















section \<open>glutil.c: drawing an image through the cached work texture\<close>

text \<open>
  The drawing routines act on the OpenGL context only. A call of a routine is the list
  of the OpenGL and immediate-mode calls it makes, in order, with their arguments. A pixel
  pointer \<open>&rect[i]\<close> is the base pointer together with the element index. Values that
  come back from the driver (the generated texture name, the vertex attribute ids, the
  current program, the location of a uniform) are the environment of a call. The constants
  carry the values of the OpenGL headers.
\<close>

definition GL_TEXTURE_2D :: int where "GL_TEXTURE_2D = 0x0DE1"
definition GL_TEXTURE_MAG_FILTER :: int where "GL_TEXTURE_MAG_FILTER = 0x2800"
definition GL_TEXTURE_MIN_FILTER :: int where "GL_TEXTURE_MIN_FILTER = 0x2801"
definition GL_TEXTURE_WRAP_S :: int where "GL_TEXTURE_WRAP_S = 0x2802"
definition GL_TEXTURE_WRAP_T :: int where "GL_TEXTURE_WRAP_T = 0x2803"
definition GL_CLAMP_TO_EDGE :: int where "GL_CLAMP_TO_EDGE = 0x812F"
definition GL_LINEAR :: int where "GL_LINEAR = 0x2601"
definition GL_UNPACK_ROW_LENGTH :: int where "GL_UNPACK_ROW_LENGTH = 0x0CF2"
definition GL_RED :: int where "GL_RED = 0x1903"
definition GL_RGB :: int where "GL_RGB = 0x1907"
definition GL_RGBA :: int where "GL_RGBA = 0x1908"
definition GL_RGBA8 :: int where "GL_RGBA8 = 0x8058"
definition GL_RGBA16F_ARB :: int where "GL_RGBA16F_ARB = 0x881A"
definition GL_UNSIGNED_BYTE :: int where "GL_UNSIGNED_BYTE = 0x1401"
definition GL_FLOAT :: int where "GL_FLOAT = 0x1406"
definition GL_CURRENT_PROGRAM :: int where "GL_CURRENT_PROGRAM = 0x8B8D"
definition GL_TRIANGLE_FAN :: int where "GL_TRIANGLE_FAN = 0x0006"

datatype VertexFetchMode = KEEP_FLOAT

datatype GPUBuiltinShader = GPU_SHADER_2D_IMAGE_COLOR

datatype ('f, 'p) gl_call =
  glGenTextures int
| glBindTexture int int
| glTexParameteri int int int
| glTexImage2D int int int int int int int int
| glTexSubImage2D int int int int int int int int 'p int
| glPixelStorei int int
| glGetIntegerv int
| glGetUniformLocation int string
| immVertexFormat
| add_attrib string int int VertexFetchMode
| immBindProgram int
| immBindBuiltinProgram GPUBuiltinShader
| immUniform1i string int
| immUniform4fv string "'f list"
| immBegin int int
| immAttrib2f int 'f 'f
| immVertex2f int 'f 'f
| immEnd
| immUnbindProgram

record gl_env =
  generated_texture :: int
  attrib_pos :: int
  attrib_texco :: int
  current_program :: int
  color_location :: int

text \<open>
  Single-precision arithmetic is not fixed here: the operations on \<open>float\<close> that the
  routine uses are handed in, so that what is shown holds whatever they round to.
  \<open>a > b\<close> is \<open>b < a\<close>.
\<close>

record 'f float_ops =
  f_zero :: 'f
  f_one :: 'f
  f_of_int :: "int \<Rightarrow> 'f"
  f_add :: "'f \<Rightarrow> 'f \<Rightarrow> 'f"
  f_mul :: "'f \<Rightarrow> 'f \<Rightarrow> 'f"
  f_div :: "'f \<Rightarrow> 'f \<Rightarrow> 'f"
  f_less :: "'f \<Rightarrow> 'f \<Rightarrow> bool"

definition size_t_wrap :: "int \<Rightarrow> int" where
  "size_t_wrap x = x mod 18446744073709551616"

text \<open>
  \<open>get_cached_work_texture\<close> keeps the texture name in a static variable that starts
  at -1; the static sizes are 256 and never written. The result is the calls made, the two
  sizes, the texture name returned and the new value of the static.
\<close>

definition get_cached_work_texture ::
  "gl_env \<Rightarrow> int \<Rightarrow> ('f, 'p) gl_call list \<times> int \<times> int \<times> int" where
  "get_cached_work_texture env texid =
     (let tex_w = 256; tex_h = 256 in
      if texid = -1
      then (let texid = generated_texture env in
            ([glGenTextures 1,
              glBindTexture GL_TEXTURE_2D texid,
              glTexParameteri GL_TEXTURE_2D GL_TEXTURE_MIN_FILTER GL_LINEAR,
              glTexParameteri GL_TEXTURE_2D GL_TEXTURE_MAG_FILTER GL_LINEAR,
              glTexImage2D GL_TEXTURE_2D 0 GL_RGBA8 tex_w tex_h 0 GL_RGBA GL_UNSIGNED_BYTE,
              glBindTexture GL_TEXTURE_2D 0],
             tex_w, tex_h, texid))
      else ([], tex_w, tex_h, texid))"

text \<open>
  The counting loops: \<open>for (i = i0; i < n; i++) body\<close>, where an iteration that hits
  \<open>continue\<close> contributes no call.
\<close>

function for_loop :: "int \<Rightarrow> int \<Rightarrow> (int \<Rightarrow> 'a list) \<Rightarrow> 'a list" where
  "for_loop i n body = (if i < n then body i @ for_loop (i + 1) n body else [])"
  by pat_completeness auto
termination
  by (relation "measure (\<lambda>(i, n, body). nat (n - i))") auto

declare for_loop.simps [simp del]

definition seamless_mode :: "int \<Rightarrow> int \<Rightarrow> int \<Rightarrow> int \<Rightarrow> int" where
  "seamless_mode tex_w tex_h img_w img_h =
     (if (tex_w < img_w \<or> tex_h < img_h) \<and> tex_w > 2 \<and> tex_h > 2 then 2 else 0)"

definition nsubparts :: "int \<Rightarrow> int \<Rightarrow> int" where
  "nsubparts img offset = c_div (int32_wrap (img + (offset - 1))) offset"

definition use_clipping :: "'f float_ops \<Rightarrow> 'f \<Rightarrow> 'f \<Rightarrow> 'f \<Rightarrow> 'f \<Rightarrow> bool" where
  "use_clipping fl clip_min_x clip_min_y clip_max_x clip_max_y =
     (f_less fl clip_min_x clip_max_x \<and> f_less fl clip_min_y clip_max_y)"

text \<open>
  The uploads of one subpart: the subpart itself and, where it does not fill the texture,
  a copy of its last column, of its last row and of its corner pixel. The row part of an
  element index is computed in \<open>size_t\<close>, the column part in \<open>int\<close>.
\<close>

definition upload_subpart ::
  "int \<Rightarrow> 'p \<Rightarrow> int \<Rightarrow> int \<Rightarrow> int \<Rightarrow> int \<Rightarrow> int \<Rightarrow> int \<Rightarrow> int \<Rightarrow> int \<Rightarrow>
   int \<Rightarrow> int \<Rightarrow> int \<Rightarrow> ('f, 'p) gl_call list" where
  "upload_subpart data_type rect format components img_w tex_w tex_h offset_x offset_y
       subpart_x subpart_y subpart_w subpart_h =
     (let row_first = subpart_y * offset_y * img_w * components;
          row_last = (subpart_y * offset_y + subpart_h - 1) * img_w * components;
          col_first = int32_wrap (subpart_x * offset_x * components);
          col_last = int32_wrap ((subpart_x * offset_x + subpart_w - 1) * components)
      in [glTexSubImage2D GL_TEXTURE_2D 0 0 0 subpart_w subpart_h format data_type rect
            (size_t_wrap (row_first + col_first))] @
         (if subpart_w < tex_w
          then [glTexSubImage2D GL_TEXTURE_2D 0 subpart_w 0 1 subpart_h format data_type rect
                  (size_t_wrap (row_first + col_last))]
          else []) @
         (if subpart_h < tex_h
          then [glTexSubImage2D GL_TEXTURE_2D 0 0 subpart_h subpart_w 1 format data_type rect
                  (size_t_wrap (row_last + col_first))]
          else []) @
         (if subpart_w < tex_w \<and> subpart_h < tex_h
          then [glTexSubImage2D GL_TEXTURE_2D 0 subpart_w subpart_h 1 1 format data_type rect
                  (size_t_wrap (row_last + col_last))]
          else []))"

definition draw_subpart ::
  "'f float_ops \<Rightarrow> int \<Rightarrow> int \<Rightarrow> 'f \<Rightarrow> 'f \<Rightarrow> int \<Rightarrow> int \<Rightarrow> int \<Rightarrow> int \<Rightarrow> 'p \<Rightarrow>
   'f \<Rightarrow> 'f \<Rightarrow> 'f \<Rightarrow> 'f \<Rightarrow> 'f \<Rightarrow> 'f \<Rightarrow> 'f \<Rightarrow> 'f \<Rightarrow>
   int \<Rightarrow> int \<Rightarrow> int \<Rightarrow> int \<Rightarrow> int \<Rightarrow> int \<Rightarrow> int \<Rightarrow> int \<Rightarrow> ('f, 'p) gl_call list" where
  "draw_subpart fl pos texco x y img_w img_h format gl_type rect scaleX scaleY
       clip_min_x clip_min_y clip_max_x clip_max_y xzoom yzoom
       tex_w tex_h seamless offset_x offset_y components subpart_x subpart_y =
     (let remainder_x = img_w - subpart_x * offset_x;
          remainder_y = img_h - subpart_y * offset_y;
          subpart_w = (if remainder_x < tex_w then remainder_x else tex_w);
          subpart_h = (if remainder_y < tex_h then remainder_y else tex_h);
          offset_left = (if seamless \<noteq> 0 \<and> subpart_x \<noteq> 0 then 1 else 0);
          offset_bot = (if seamless \<noteq> 0 \<and> subpart_y \<noteq> 0 then 1 else 0);
          offset_right = (if seamless \<noteq> 0 \<and> remainder_x > tex_w then 1 else 0);
          offset_top = (if seamless \<noteq> 0 \<and> remainder_y > tex_h then 1 else (0::int));
          rast_x = f_add fl x (f_mul fl (f_of_int fl (subpart_x * offset_x)) xzoom);
          rast_y = f_add fl y (f_mul fl (f_of_int fl (subpart_y * offset_y)) yzoom);
          left = f_add fl rast_x (f_mul fl (f_of_int fl offset_left) xzoom);
          bot = f_add fl rast_y (f_mul fl (f_of_int fl offset_bot) yzoom);
          right = f_add fl rast_x
                    (f_mul fl (f_mul fl (f_of_int fl (subpart_w - offset_right)) xzoom) scaleX);
          top = f_add fl rast_y
                  (f_mul fl (f_mul fl (f_of_int fl (subpart_h - offset_top)) yzoom) scaleY)
      in if subpart_w \<le> seamless \<or> subpart_h \<le> seamless then []
         else if use_clipping fl clip_min_x clip_min_y clip_max_x clip_max_y \<and>
                 (f_less fl right clip_min_x \<or> f_less fl top clip_min_y) then []
         else if use_clipping fl clip_min_x clip_min_y clip_max_x clip_max_y \<and>
                 (f_less fl clip_max_x left \<or> f_less fl clip_max_y bot) then []
         else
           (if gl_type = GL_FLOAT
            then upload_subpart GL_FLOAT rect format components img_w tex_w tex_h
                   offset_x offset_y subpart_x subpart_y subpart_w subpart_h
            else upload_subpart GL_UNSIGNED_BYTE rect format components img_w tex_w tex_h
                   offset_x offset_y subpart_x subpart_y subpart_w subpart_h) @
           [immBegin GL_TRIANGLE_FAN 4,
            immAttrib2f texco (f_div fl (f_of_int fl (0 + offset_left)) (f_of_int fl tex_w))
                              (f_div fl (f_of_int fl (0 + offset_bot)) (f_of_int fl tex_h)),
            immVertex2f pos left bot,
            immAttrib2f texco (f_div fl (f_of_int fl (subpart_w - offset_right)) (f_of_int fl tex_w))
                              (f_div fl (f_of_int fl (0 + offset_bot)) (f_of_int fl tex_h)),
            immVertex2f pos right bot,
            immAttrib2f texco (f_div fl (f_of_int fl (subpart_w - offset_right)) (f_of_int fl tex_w))
                              (f_div fl (f_of_int fl (subpart_h - offset_top)) (f_of_int fl tex_h)),
            immVertex2f pos right top,
            immAttrib2f texco (f_div fl (f_of_int fl (0 + offset_left)) (f_of_int fl tex_w))
                              (f_div fl (f_of_int fl (subpart_h - offset_top)) (f_of_int fl tex_h)),
            immVertex2f pos left top,
            immEnd])"

text \<open>
  \<open>immDrawPixelsTexScaled_clipping\<close>. The result is the list of calls and the new value
  of the static texture name. A \<open>format\<close> other than RGBA, RGB and RED makes the routine
  return after the texture has been bound and configured. A null \<open>color\<close> is \<open>None\<close>.
\<close>

definition immDrawPixelsTexScaled_clipping ::
  "'f float_ops \<Rightarrow> gl_env \<Rightarrow> int \<Rightarrow> 'f \<Rightarrow> 'f \<Rightarrow> int \<Rightarrow> int \<Rightarrow> int \<Rightarrow> int \<Rightarrow> int \<Rightarrow> 'p \<Rightarrow>
   'f \<Rightarrow> 'f \<Rightarrow> 'f \<Rightarrow> 'f \<Rightarrow> 'f \<Rightarrow> 'f \<Rightarrow> 'f \<Rightarrow> 'f \<Rightarrow> 'f list option \<Rightarrow>
   ('f, 'p) gl_call list \<times> int" where
  "immDrawPixelsTexScaled_clipping fl env static_texid x y img_w img_h format gl_type zoomfilter rect
       scaleX scaleY clip_min_x clip_min_y clip_max_x clip_max_y xzoom yzoom color =
     (let (cached, tex_w, tex_h, texid) = get_cached_work_texture env static_texid;
          white = [f_one fl, f_one fl, f_one fl, f_one fl];
          setup = cached @
            [glPixelStorei GL_UNPACK_ROW_LENGTH img_w,
             glBindTexture GL_TEXTURE_2D texid,
             glTexParameteri GL_TEXTURE_2D GL_TEXTURE_WRAP_S GL_CLAMP_TO_EDGE,
             glTexParameteri GL_TEXTURE_2D GL_TEXTURE_WRAP_T GL_CLAMP_TO_EDGE,
             glTexParameteri GL_TEXTURE_2D GL_TEXTURE_MAG_FILTER zoomfilter];
          seamless = seamless_mode tex_w tex_h img_w img_h;
          offset_x = tex_w - seamless;
          offset_y = tex_h - seamless;
          nsubparts_x = nsubparts img_w offset_x;
          nsubparts_y = nsubparts img_h offset_y
      in if format \<noteq> GL_RGBA \<and> format \<noteq> GL_RGB \<and> format \<noteq> GL_RED then (setup, texid)
         else
           (let components = (if format = GL_RGBA then 4 else if format = GL_RGB then 3 else 1);
                storage =
                  (if gl_type = GL_FLOAT
                   then [glTexImage2D GL_TEXTURE_2D 0 GL_RGBA16F_ARB tex_w tex_h 0 format GL_FLOAT]
                   else [glTexImage2D GL_TEXTURE_2D 0 GL_RGBA8 tex_w tex_h 0 format
                           GL_UNSIGNED_BYTE]);
                pos = attrib_pos env;
                texco = attrib_texco env;
                program = current_program env;
                attribs =
                  [immVertexFormat,
                   add_attrib ''pos'' GL_FLOAT 2 KEEP_FLOAT,
                   add_attrib ''texCoord'' GL_FLOAT 2 KEEP_FLOAT,
                   glGetIntegerv GL_CURRENT_PROGRAM];
                bind =
                  (if program \<noteq> 0
                   then [immBindProgram program, glGetUniformLocation program ''color''] @
                        (if color_location env \<noteq> -1
                         then [immUniform4fv ''color'' (case color of Some c \<Rightarrow> c | None \<Rightarrow> white)]
                         else [])
                   else [immBindBuiltinProgram GPU_SHADER_2D_IMAGE_COLOR,
                         immUniform1i ''image'' 0,
                         immUniform4fv ''color'' (case color of Some c \<Rightarrow> c | None \<Rightarrow> white)]);
                subparts =
                  for_loop 0 nsubparts_y (\<lambda>subpart_y.
                    for_loop 0 nsubparts_x (\<lambda>subpart_x.
                      draw_subpart fl pos texco x y img_w img_h format gl_type rect scaleX scaleY
                        clip_min_x clip_min_y clip_max_x clip_max_y xzoom yzoom
                        tex_w tex_h seamless offset_x offset_y components subpart_x subpart_y))
            in (setup @ storage @ attribs @ bind @ subparts @
                [immUnbindProgram,
                 glBindTexture GL_TEXTURE_2D 0,
                 glPixelStorei GL_UNPACK_ROW_LENGTH 0], texid)))"

definition immDrawPixelsTexScaled ::
  "'f float_ops \<Rightarrow> gl_env \<Rightarrow> int \<Rightarrow> 'f \<Rightarrow> 'f \<Rightarrow> int \<Rightarrow> int \<Rightarrow> int \<Rightarrow> int \<Rightarrow> int \<Rightarrow> 'p \<Rightarrow>
   'f \<Rightarrow> 'f \<Rightarrow> 'f \<Rightarrow> 'f \<Rightarrow> 'f list option \<Rightarrow> ('f, 'p) gl_call list \<times> int" where
  "immDrawPixelsTexScaled fl env static_texid x y img_w img_h format gl_type zoomfilter rect
       scaleX scaleY xzoom yzoom color =
     immDrawPixelsTexScaled_clipping fl env static_texid x y img_w img_h format gl_type zoomfilter rect
       scaleX scaleY (f_zero fl) (f_zero fl) (f_zero fl) (f_zero fl) xzoom yzoom color"

definition immDrawPixelsTex ::
  "'f float_ops \<Rightarrow> gl_env \<Rightarrow> int \<Rightarrow> 'f \<Rightarrow> 'f \<Rightarrow> int \<Rightarrow> int \<Rightarrow> int \<Rightarrow> int \<Rightarrow> int \<Rightarrow> 'p \<Rightarrow>
   'f \<Rightarrow> 'f \<Rightarrow> 'f list option \<Rightarrow> ('f, 'p) gl_call list \<times> int" where
  "immDrawPixelsTex fl env static_texid x y img_w img_h format gl_type zoomfilter rect
       xzoom yzoom color =
     immDrawPixelsTexScaled_clipping fl env static_texid x y img_w img_h format gl_type zoomfilter rect
       (f_one fl) (f_one fl) (f_zero fl) (f_zero fl) (f_zero fl) (f_zero fl) xzoom yzoom color"

definition immDrawPixelsTex_clipping ::
  "'f float_ops \<Rightarrow> gl_env \<Rightarrow> int \<Rightarrow> 'f \<Rightarrow> 'f \<Rightarrow> int \<Rightarrow> int \<Rightarrow> int \<Rightarrow> int \<Rightarrow> int \<Rightarrow> 'p \<Rightarrow>
   'f \<Rightarrow> 'f \<Rightarrow> 'f \<Rightarrow> 'f \<Rightarrow> 'f \<Rightarrow> 'f \<Rightarrow> 'f list option \<Rightarrow> ('f, 'p) gl_call list \<times> int" where
  "immDrawPixelsTex_clipping fl env static_texid x y img_w img_h format gl_type zoomfilter rect
       clip_min_x clip_min_y clip_max_x clip_max_y xzoom yzoom color =
     immDrawPixelsTexScaled_clipping fl env static_texid x y img_w img_h format gl_type zoomfilter rect
       (f_one fl) (f_one fl) clip_min_x clip_min_y clip_max_x clip_max_y xzoom yzoom color"

text \<open>
  Notions used to state the properties of the drawing routine. The uploads of whole
  subparts are the \<open>glTexSubImage2D\<close> calls that write at the origin of the work
  texture; the border copies write at a column or row past the subpart. An upload fits the
  work texture when its rectangle is not empty and lies inside the texture.
\<close>

fun is_tile_upload :: "('f, 'p) gl_call \<Rightarrow> bool" where
  "is_tile_upload (glTexSubImage2D target level xoffset yoffset width height format gl_type rect i) =
     (xoffset = 0 \<and> yoffset = 0)"
| "is_tile_upload _ = False"

definition tile_uploads :: "('f, 'p) gl_call list \<Rightarrow> ('f, 'p) gl_call list" where
  "tile_uploads calls = filter is_tile_upload calls"

fun is_upload :: "('f, 'p) gl_call \<Rightarrow> bool" where
  "is_upload (glTexSubImage2D target level xoffset yoffset width height format gl_type rect i) = True"
| "is_upload _ = False"

fun upload_fits :: "int \<Rightarrow> int \<Rightarrow> ('f, 'p) gl_call \<Rightarrow> bool" where
  "upload_fits tex_w tex_h
     (glTexSubImage2D target level xoffset yoffset width height format gl_type rect i) =
     (0 \<le> xoffset \<and> 0 \<le> yoffset \<and> 1 \<le> width \<and> 1 \<le> height \<and>
      width \<le> tex_w \<and> height \<le> tex_h \<and>
      xoffset + width \<le> tex_w \<and> yoffset + height \<le> tex_h)"
| "upload_fits tex_w tex_h _ = True"

section \<open>Notions used to state the properties of the storage\<close>

text \<open>
  The addresses owned by the storage of a library, and the relation between two heaps
  saying that every object alive in the second was alive in the first with the same
  \<open>is_local_id\<close> flag.
\<close>

definition storage_keys :: "('cs, 'x) AssetLibrary_scheme \<Rightarrow> addr set" where
  "storage_keys lib =
     set (local_id_assets (storage_' lib)) \<union> set (external_assets (storage_' lib))"

definition flags_kept :: "('id, 'md, 'l) heap \<Rightarrow> ('id, 'md, 'l) heap \<Rightarrow> bool" where
  "flags_kept h h' =
     (\<forall>q cell'. h' q = Some cell' \<longrightarrow>
        (\<exists>cell. h q = Some cell \<and> is_local_id (object cell') = is_local_id (object cell)))"

section \<open>Properties of the list of valid library references\<close>

lemma int32_wrap_id:
  "- 2147483648 \<le> x \<Longrightarrow> x \<le> 2147483647 \<Longrightarrow> int32_wrap x = x"
  by (simp add: int32_wrap_def)

lemma all_valid_loop_eq:
  "k + length libs < 2 ^ 31 \<Longrightarrow>
   all_valid_loop is_dir (int k) libs acc =
     acc @ map (\<lambda>j. \<lparr>custom_library_index = int (k + j), type = ASSET_LIBRARY_CUSTOM\<rparr>)
             (filter (\<lambda>j. is_dir (dirpath (libs ! j))) [0..<length libs])"
proof (induction libs arbitrary: k acc)
  case Nil
  then show ?case by simp
next
  case (Cons l ls)
  have step: "int32_wrap (int k + 1) = int (Suc k)"
    using Cons.prems by (simp add: int32_wrap_id)
  have bound: "Suc k + length ls < 2 ^ 31"
    using Cons.prems by simp
  have shift: "[0..<length (l # ls)] = 0 # map Suc [0..<length ls]"
    by (simp add: upt_conv_Cons map_Suc_upt del: upt_Suc)
  have unroll: "all_valid_loop is_dir (int k) (l # ls) acc =
      all_valid_loop is_dir (int (Suc k)) ls
        (if is_dir (dirpath l)
         then acc @ [\<lparr>custom_library_index = int k, type = ASSET_LIBRARY_CUSTOM\<rparr>]
         else acc)"
    by (simp only: all_valid_loop.simps step split: if_split) simp
  show ?case
    unfolding unroll shift Cons.IH [OF bound]
    by (simp add: filter_map o_def)
qed

text \<open>
  C10: the list returned by \<open>all_valid_asset_library_refs\<close> is the ESSENTIALS reference
  (index -1), then, in the order of the preferences list, one CUSTOM reference for every
  user library whose \<open>dirpath\<close> is an existing directory, carrying that library's position
  in the preferences list as \<open>custom_library_index\<close>, then the LOCAL reference (index -1).
  The position counter is a C \<open>int\<close>, so the list is taken to have fewer than \<open>2^31\<close>
  entries.
\<close>

theorem all_valid_asset_library_refs_shape:
  assumes "length libs < 2 ^ 31"
  shows "all_valid_asset_library_refs is_dir libs =
           \<lparr>custom_library_index = -1, type = ASSET_LIBRARY_ESSENTIALS\<rparr> #
           map (\<lambda>j. \<lparr>custom_library_index = int j, type = ASSET_LIBRARY_CUSTOM\<rparr>)
               (filter (\<lambda>j. is_dir (dirpath (libs ! j))) [0..<length libs]) @
           [\<lparr>custom_library_index = -1, type = ASSET_LIBRARY_LOCAL\<rparr>] \<and>
         hd (all_valid_asset_library_refs is_dir libs) =
           \<lparr>custom_library_index = -1, type = ASSET_LIBRARY_ESSENTIALS\<rparr> \<and>
         last (all_valid_asset_library_refs is_dir libs) =
           \<lparr>custom_library_index = -1, type = ASSET_LIBRARY_LOCAL\<rparr>"
proof -
  have loop: "all_valid_loop is_dir 0 libs acc =
      acc @ map (\<lambda>j. \<lparr>custom_library_index = int j, type = ASSET_LIBRARY_CUSTOM\<rparr>)
              (filter (\<lambda>j. is_dir (dirpath (libs ! j))) [0..<length libs])" for acc
    using all_valid_loop_eq [of 0 libs is_dir acc] assms by simp
  show ?thesis
    by (simp add: all_valid_asset_library_refs_def loop)
qed

theorem all_valid_asset_library_refs_shape_witness:
  "length [\<lparr>dirpath = ''/assets''\<rparr>, \<lparr>dirpath = ''/missing''\<rparr>, \<lparr>dirpath = ''/extra''\<rparr>]
     < (2::nat) ^ 31 \<and>
   all_valid_asset_library_refs (\<lambda>p. p = ''/assets'' \<or> p = ''/extra'')
     [\<lparr>dirpath = ''/assets''\<rparr>, \<lparr>dirpath = ''/missing''\<rparr>, \<lparr>dirpath = ''/extra''\<rparr>] =
     [\<lparr>custom_library_index = -1, type = ASSET_LIBRARY_ESSENTIALS\<rparr>,
      \<lparr>custom_library_index = 0, type = ASSET_LIBRARY_CUSTOM\<rparr>,
      \<lparr>custom_library_index = 2, type = ASSET_LIBRARY_CUSTOM\<rparr>,
      \<lparr>custom_library_index = -1, type = ASSET_LIBRARY_LOCAL\<rparr>]"
  using all_valid_asset_library_refs_shape
    [of "[\<lparr>dirpath = ''/assets''\<rparr>, \<lparr>dirpath = ''/missing''\<rparr>, \<lparr>dirpath = ''/extra''\<rparr>]"
        "\<lambda>p. p = ''/assets'' \<or> p = ''/extra''"]
  by (simp add: upt_rec)

section \<open>Properties of C strings\<close>

lemma c_string_at_strncpy:
  "0 < n \<Longrightarrow> NUL \<notin> set src \<Longrightarrow> c_string_at (BLI_strncpy dst src n) 0 = take (n - 1) src"
  by (auto simp: c_string_at_def BLI_strncpy_def Let_def min_def takeWhile_append
        takeWhile_eq_all_conv dest: in_set_takeD)

lemma length_STRNCPY: "dst \<noteq> [] \<Longrightarrow> length (STRNCPY dst src) = length dst"
  by (cases dst) (auto simp add: STRNCPY_def BLI_strncpy_def Let_def min_def)

lemma c_string_at_STRNCPY:
  "dst \<noteq> [] \<Longrightarrow> NUL \<notin> set src \<Longrightarrow>
   c_string_at (STRNCPY dst src) 0 = take (length dst - 1) src"
  by (simp add: STRNCPY_def c_string_at_strncpy)

lemma NUL_notin_c_str: "NUL \<notin> set (c_str s)"
  by (auto simp: c_str_def dest: set_takeWhileD)

lemma c_string_at_NUL_first: "buf \<noteq> [] \<Longrightarrow> c_string_at (buf[0 := NUL]) 0 = []"
  by (cases buf) (simp_all add: c_string_at_def)

section \<open>Properties of refresh\_catalog\_simplename\<close>

text \<open>
  C9, as the code has it: \<open>refresh_catalog_simplename\<close> changes no field of the metadata
  other than \<open>catalog_simple_name\<close>, and keeps the size of that array. For the nil UUID
  the array then holds the empty string; when the catalog is not found the metadata is left
  as it was; when it is found the array holds the catalog's simple name cut to what fits,
  that is its first \<open>size - 1\<close> characters.
\<close>

theorem refresh_catalog_simplename_frame:
  fixes is_nil find_catalog cs asset_data
  assumes "catalog_simple_name asset_data \<noteq> []"
  defines "r \<equiv> refresh_catalog_simplename is_nil find_catalog cs asset_data"
  shows "r = asset_data\<lparr>catalog_simple_name := catalog_simple_name r\<rparr> \<and>
         length (catalog_simple_name r) = length (catalog_simple_name asset_data) \<and>
         (is_nil (catalog_id asset_data) \<longrightarrow> c_string_at (catalog_simple_name r) 0 = []) \<and>
         (\<not> is_nil (catalog_id asset_data) \<and> find_catalog cs (catalog_id asset_data) = None
            \<longrightarrow> r = asset_data) \<and>
         (\<forall>catalog. \<not> is_nil (catalog_id asset_data) \<and>
            find_catalog cs (catalog_id asset_data) = Some catalog \<longrightarrow>
            c_string_at (catalog_simple_name r) 0 =
              take (length (catalog_simple_name asset_data) - 1) (c_str (simple_name catalog)))"
proof -
  have nonempty: "0 < length (catalog_simple_name asset_data)"
    using assms(1) by simp
  show ?thesis
    unfolding r_def refresh_catalog_simplename_def
    using assms(1) nonempty
    by (auto simp: length_STRNCPY c_string_at_NUL_first c_string_at_STRNCPY
          NUL_notin_c_str split: option.splits)
qed

theorem refresh_catalog_simplename_frame_witness:
  "c_string_at (catalog_simple_name
      (refresh_catalog_simplename (\<lambda>u. u = (0::nat)) (\<lambda>cs. cs)
         (\<lambda>u. if u = 7 then Some \<lparr>simple_name = ''Props''\<rparr> else None)
         \<lparr>catalog_id = 0, catalog_simple_name = ''old'' @ [NUL]\<rparr>)) 0 = [] \<and>
   refresh_catalog_simplename (\<lambda>u. u = (0::nat)) (\<lambda>cs. cs)
         (\<lambda>u. if u = 7 then Some \<lparr>simple_name = ''Props''\<rparr> else None)
         \<lparr>catalog_id = 3, catalog_simple_name = ''old'' @ [NUL]\<rparr> =
     \<lparr>catalog_id = 3, catalog_simple_name = ''old'' @ [NUL]\<rparr> \<and>
   c_string_at (catalog_simple_name
      (refresh_catalog_simplename (\<lambda>u. u = (0::nat)) (\<lambda>cs. cs)
         (\<lambda>u. if u = 7 then Some \<lparr>simple_name = ''Props''\<rparr> else None)
         \<lparr>catalog_id = 7, catalog_simple_name = ''old'' @ [NUL]\<rparr>)) 0 = ''Pro''"
  using refresh_catalog_simplename_frame
      [of "\<lparr>catalog_id = 0, catalog_simple_name = ''old'' @ [NUL]\<rparr>" "\<lambda>u. u = (0::nat)"
          "\<lambda>cs. cs" "\<lambda>u. if u = 7 then Some \<lparr>simple_name = ''Props''\<rparr> else None"]
    refresh_catalog_simplename_frame
      [of "\<lparr>catalog_id = 3, catalog_simple_name = ''old'' @ [NUL]\<rparr>" "\<lambda>u. u = (0::nat)"
          "\<lambda>cs. cs" "\<lambda>u. if u = 7 then Some \<lparr>simple_name = ''Props''\<rparr> else None"]
    refresh_catalog_simplename_frame
      [of "\<lparr>catalog_id = 7, catalog_simple_name = ''old'' @ [NUL]\<rparr>" "\<lambda>u. u = (0::nat)"
          "\<lambda>cs. cs" "\<lambda>u. if u = 7 then Some \<lparr>simple_name = ''Props''\<rparr> else None"]
  by (simp add: c_str_def NUL_def)

text \<open>
  The claim as written fails where the simple name does not fit: a catalog whose simple
  name has 70 characters leaves its first 63 in an array of 64.
\<close>

theorem refresh_catalog_simplename_truncates:
  "c_string_at (catalog_simple_name
      (refresh_catalog_simplename (\<lambda>u. u = (0::nat)) (\<lambda>cs. cs)
         (\<lambda>u. if u = 7 then Some \<lparr>simple_name = replicate 70 CHR ''a''\<rparr> else None)
         \<lparr>catalog_id = 7, catalog_simple_name = replicate 64 NUL\<rparr>)) 0
   = replicate 63 CHR ''a'' \<and>
   replicate 63 CHR ''a'' \<noteq> replicate 70 CHR ''a''"
  by code_simp

section \<open>Properties of AS\_asset\_library\_load\<close>

text \<open>
  C7: \<open>AS_asset_library_load(name, library_dirpath)\<close> first fetches the service; for a
  null or empty \<open>library_dirpath\<close> it returns what the service gives as the library of the
  current file, otherwise what the service resolves as the on-disk custom library for that
  name and directory path. Every result is a result of the service.
\<close>

theorem AS_asset_library_load_consults_service:
  "AS_asset_library_load api nm library_dirpath w =
     (if library_dirpath = None \<or> library_dirpath = Some []
      then get_asset_library_current_file api
             (fst (AssetLibraryService_get api w)) (snd (AssetLibraryService_get api w))
      else get_asset_library_on_disk_custom api
             (fst (AssetLibraryService_get api w)) nm (the library_dirpath)
             (snd (AssetLibraryService_get api w)))"
  by (simp add: AS_asset_library_load_def split_beta split: option.split)

section \<open>Properties of the asset storage\<close>

lemma flags_kept_refl: "flags_kept h h"
  by (simp add: flags_kept_def)

lemma flags_kept_trans: "flags_kept h h1 \<Longrightarrow> flags_kept h1 h2 \<Longrightarrow> flags_kept h h2"
proof (unfold flags_kept_def, intro allI impI)
  fix q cell2
  assume a: "\<forall>q cell'. h1 q = Some cell' \<longrightarrow>
        (\<exists>cell. h q = Some cell \<and> is_local_id (object cell') = is_local_id (object cell))"
    and b: "\<forall>q cell'. h2 q = Some cell' \<longrightarrow>
        (\<exists>cell. h1 q = Some cell \<and> is_local_id (object cell') = is_local_id (object cell))"
    and c: "h2 q = Some cell2"
  from b c obtain cell1 where c1: "h1 q = Some cell1"
    and e1: "is_local_id (object cell2) = is_local_id (object cell1)" by blast
  from a c1 obtain cell where c0: "h q = Some cell"
    and e0: "is_local_id (object cell1) = is_local_id (object cell)" by blast
  from c0 e0 e1 show "\<exists>cell. h q = Some cell \<and> is_local_id (object cell2) = is_local_id (object cell)"
    by simp
qed

lemma flags_kept_release: "flags_kept h (shared_ptr_release p h)"
  by (auto simp: flags_kept_def shared_ptr_release_def split: option.splits if_splits)

lemma flags_kept_remove_asset: "flags_kept h (fst (snd (remove_asset a (h, lib))))"
  by (simp add: remove_asset_def flags_kept_release flags_kept_refl)

lemma flags_kept_remove_loop: "flags_kept h (fst (remove_loop as (h, lib)))"
proof (induction as arbitrary: h lib)
  case Nil
  show ?case by (simp add: flags_kept_refl)
next
  case (Cons a as)
  obtain b h1 lib1 where r: "remove_asset a (h, lib) = (b, h1, lib1)"
    by (cases "remove_asset a (h, lib)") auto
  have "flags_kept h h1"
    using flags_kept_remove_asset [of h a lib] r by simp
  moreover have "flags_kept h1 (fst (remove_loop as (h1, lib1)))"
    by (rule Cons.IH)
  ultimately show ?case
    using r by (simp add: flags_kept_trans)
qed

lemma remap_loop_Cons_Inr:
  assumes "remap_loop ap (k # ks) h rm = Inr r"
  obtains cell idp where "h k = Some cell" and "is_local_id (object cell)"
    and "asset_union_' (object cell) = local_asset_id_' idp"
    and "remap_loop ap ks
           (h(k \<mapsto> cell\<lparr>object := (object cell)\<lparr>asset_union_' := local_asset_id_' (snd (ap idp))\<rparr>\<rparr>))
           (if fst (ap idp) = ID_REMAP_RESULT_SOURCE_UNASSIGNED then List.insert k rm else rm)
         = Inr r"
proof (cases "h k")
  case None
  with assms show ?thesis by simp
next
  case (Some cell)
  show ?thesis
  proof (cases "is_local_id (object cell)")
    case False
    with Some assms show ?thesis by simp
  next
    case True
    show ?thesis
    proof (cases "asset_union_' (object cell)")
      case (external_asset_' e)
      with Some True assms show ?thesis by simp
    next
      case (local_asset_id_' idp)
      with Some True assms that [of cell idp] show ?thesis
        by (simp add: split_beta Let_def)
    qed
  qed
qed

lemma flags_kept_remap_loop:
  "remap_loop ap ks h rm = Inr (h', rm') \<Longrightarrow> flags_kept h h'"
proof (induction ks arbitrary: h rm)
  case Nil
  then show ?case by (simp add: flags_kept_refl)
next
  case (Cons k ks)
  from Cons.prems obtain cell idp where
    cell: "h k = Some cell"
    and rest: "remap_loop ap ks
           (h(k \<mapsto> cell\<lparr>object := (object cell)\<lparr>asset_union_' := local_asset_id_' (snd (ap idp))\<rparr>\<rparr>))
           (if fst (ap idp) = ID_REMAP_RESULT_SOURCE_UNASSIGNED then List.insert k rm else rm)
         = Inr (h', rm')"
    by (rule remap_loop_Cons_Inr)
  have step: "flags_kept h
      (h(k \<mapsto> cell\<lparr>object := (object cell)\<lparr>asset_union_' := local_asset_id_' (snd (ap idp))\<rparr>\<rparr>))"
    using cell by (simp add: flags_kept_def is_local_id_def)
  from rest have "flags_kept
      (h(k \<mapsto> cell\<lparr>object := (object cell)\<lparr>asset_union_' := local_asset_id_' (snd (ap idp))\<rparr>\<rparr>)) h'"
    by (rule Cons.IH)
  with step show ?case by (rule flags_kept_trans)
qed

lemma flags_kept_remap:
  assumes "remap_ids_and_remove_invalid ap (h, lib) = Inr (h', lib')"
  shows "flags_kept h h'"
proof -
  from assms obtain h1 rm where
    l1: "remap_loop ap (local_id_assets (storage_' lib)) h [] = Inr (h1, rm)"
    and l2: "remove_loop rm (h1, lib) = (h', lib')"
    by (auto simp: remap_ids_and_remove_invalid_def split: sum.splits)
  have "flags_kept h h1" using l1 by (rule flags_kept_remap_loop)
  moreover have "flags_kept h1 h'"
    using flags_kept_remove_loop [of h1 rm lib] l2 by simp
  ultimately show ?thesis by (rule flags_kept_trans)
qed




lemma remove1_append_last: "x \<notin> set xs \<Longrightarrow> remove1 x (xs @ [x]) = xs"
  by (simp add: remove1_append)





text \<open>
  C5: with \<open>p\<close> the fresh address of the new object and a storage whose keys are alive
  and distinct, \<open>add_external_asset\<close> and \<open>add_local_id_asset\<close> hand back the weak
  pointer to \<open>p\<close>, leave the object with one owner, the storage, and append \<open>p\<close> to the
  set they belong to. \<open>remove_asset\<close> answers true exactly for the keys of the two sets,
  removes that key and no other, and drops the storage's shared pointer; removing an asset
  right after adding it gives back the heap and the library as they were, the object being
  destroyed.
\<close>

theorem storage_owns_assets:
  assumes fresh: "h p = None"
    and live: "storage_keys lib \<subseteq> dom h"
    and dist: "distinct (local_id_assets (storage_' lib) @ external_assets (storage_' lib))"
  shows
   "add_external_asset this p path nm ty md (h, lib) =
      (weak_ptr p,
       h(p \<mapsto> \<lparr>object = AssetRepresentation_external path nm ty md this, use_count = 1\<rparr>),
       lib\<lparr>storage_' := (storage_' lib)\<lparr>external_assets :=
              external_assets (storage_' lib) @ [p]\<rparr>\<rparr>) \<and>
    add_local_id_asset this p path idp (h, lib) =
      (weak_ptr p,
       h(p \<mapsto> \<lparr>object = AssetRepresentation_local path idp this, use_count = 1\<rparr>),
       lib\<lparr>storage_' := (storage_' lib)\<lparr>local_id_assets :=
              local_id_assets (storage_' lib) @ [p]\<rparr>\<rparr>) \<and>
    (fst (remove_asset a (h, lib)) \<longleftrightarrow> a \<in> storage_keys lib) \<and>
    storage_keys (snd (snd (remove_asset a (h, lib)))) = storage_keys lib - {a} \<and>
    fst (snd (remove_asset a (h, lib))) =
      (if a \<in> storage_keys lib then shared_ptr_release a h else h) \<and>
    remove_asset p (snd (add_external_asset this p path nm ty md (h, lib))) = (True, h, lib) \<and>
    remove_asset p (snd (add_local_id_asset this p path idp (h, lib))) = (True, h, lib)"
proof -
  have notin: "p \<notin> set (local_id_assets (storage_' lib))"
    "p \<notin> set (external_assets (storage_' lib))"
    using fresh live by (auto simp: storage_keys_def)
  have add_ext: "add_external_asset this p path nm ty md (h, lib) =
      (weak_ptr p,
       h(p \<mapsto> \<lparr>object = AssetRepresentation_external path nm ty md this, use_count = 1\<rparr>),
       lib\<lparr>storage_' := (storage_' lib)\<lparr>external_assets :=
              external_assets (storage_' lib) @ [p]\<rparr>\<rparr>)"
    using notin by (simp add: add_external_asset_def make_shared_def)
  have add_loc: "add_local_id_asset this p path idp (h, lib) =
      (weak_ptr p,
       h(p \<mapsto> \<lparr>object = AssetRepresentation_local path idp this, use_count = 1\<rparr>),
       lib\<lparr>storage_' := (storage_' lib)\<lparr>local_id_assets :=
              local_id_assets (storage_' lib) @ [p]\<rparr>\<rparr>)"
    using notin by (simp add: add_local_id_asset_def make_shared_def)
  have rem_ret: "fst (remove_asset a (h, lib)) \<longleftrightarrow> a \<in> storage_keys lib"
    by (simp add: remove_asset_def storage_keys_def)
  have rem_keys: "storage_keys (snd (snd (remove_asset a (h, lib)))) = storage_keys lib - {a}"
    using dist by (auto simp: remove_asset_def storage_keys_def)
  have rem_heap: "fst (snd (remove_asset a (h, lib))) =
      (if a \<in> storage_keys lib then shared_ptr_release a h else h)"
    by (simp add: remove_asset_def storage_keys_def)
  have gone: "h(p := None) = h"
    using fresh by (simp add: fun_upd_idem)
  have back_ext: "remove_asset p (snd (add_external_asset this p path nm ty md (h, lib))) =
      (True, h, lib)"
    unfolding add_ext using notin
    by (simp add: remove_asset_def shared_ptr_release_def gone remove1_append_last)
  have back_loc: "remove_asset p (snd (add_local_id_asset this p path idp (h, lib))) =
      (True, h, lib)"
    unfolding add_loc using notin
    by (simp add: remove_asset_def shared_ptr_release_def gone remove1_append_last)
  show ?thesis
    using add_ext add_loc rem_ret rem_keys rem_heap back_ext back_loc by (intro conjI)
qed

theorem storage_owns_assets_witness:
  "([1 \<mapsto> \<lparr>object = AssetRepresentation_local ''Object/Cube'' (5::nat) (0::nat), use_count = 1\<rparr>] :: (nat, unit, nat) heap) 2 = None \<and>
   storage_keys
      \<lparr>library_type_' = ASSET_LIBRARY_CUSTOM, name_' = ''props'', root_path_' = ''/assets'',
       catalog_service_' = (0::nat), catalog_service_mutex_' = [],
       storage_' = \<lparr>external_assets = [], local_id_assets = [1]\<rparr>\<rparr> \<subseteq> dom ([1 \<mapsto> \<lparr>object = AssetRepresentation_local ''Object/Cube'' (5::nat) (0::nat), use_count = 1\<rparr>] :: (nat, unit, nat) heap) \<and>
   add_external_asset (0::nat) 2 ''Material/Steel'' ''Steel'' 3 ()
     (([1 \<mapsto> \<lparr>object = AssetRepresentation_local ''Object/Cube'' (5::nat) (0::nat), use_count = 1\<rparr>] :: (nat, unit, nat) heap),
      \<lparr>library_type_' = ASSET_LIBRARY_CUSTOM, name_' = ''props'', root_path_' = ''/assets'',
       catalog_service_' = (0::nat), catalog_service_mutex_' = [],
       storage_' = \<lparr>external_assets = [], local_id_assets = [1]\<rparr>\<rparr>) =
     (weak_ptr 2,
      ([1 \<mapsto> \<lparr>object = AssetRepresentation_local ''Object/Cube'' (5::nat) (0::nat), use_count = 1\<rparr>] :: (nat, unit, nat) heap)
        (2 \<mapsto> \<lparr>object = AssetRepresentation_external ''Material/Steel'' ''Steel'' 3 () 0,
               use_count = 1\<rparr>),
      \<lparr>library_type_' = ASSET_LIBRARY_CUSTOM, name_' = ''props'', root_path_' = ''/assets'',
       catalog_service_' = (0::nat), catalog_service_mutex_' = [],
       storage_' = \<lparr>external_assets = [2], local_id_assets = [1]\<rparr>\<rparr>) \<and>
   remove_asset 1
     (([1 \<mapsto> \<lparr>object = AssetRepresentation_local ''Object/Cube'' (5::nat) (0::nat), use_count = 1\<rparr>] :: (nat, unit, nat) heap),
      \<lparr>library_type_' = ASSET_LIBRARY_CUSTOM, name_' = ''props'', root_path_' = ''/assets'',
       catalog_service_' = (0::nat), catalog_service_mutex_' = [],
       storage_' = \<lparr>external_assets = [], local_id_assets = [1]\<rparr>\<rparr>) =
     (True, Map.empty,
      \<lparr>library_type_' = ASSET_LIBRARY_CUSTOM, name_' = ''props'', root_path_' = ''/assets'',
       catalog_service_' = (0::nat), catalog_service_mutex_' = [],
       storage_' = \<lparr>external_assets = [], local_id_assets = []\<rparr>\<rparr>) \<and>
   \<not> fst (remove_asset 7
     (([1 \<mapsto> \<lparr>object = AssetRepresentation_local ''Object/Cube'' (5::nat) (0::nat), use_count = 1\<rparr>] :: (nat, unit, nat) heap),
      \<lparr>library_type_' = ASSET_LIBRARY_CUSTOM, name_' = ''props'', root_path_' = ''/assets'',
       catalog_service_' = (0::nat), catalog_service_mutex_' = [],
       storage_' = \<lparr>external_assets = [], local_id_assets = [1]\<rparr>\<rparr>))"
proof -
  have fresh: "([1 \<mapsto> \<lparr>object = AssetRepresentation_local ''Object/Cube'' (5::nat) (0::nat), use_count = 1\<rparr>] :: (nat, unit, nat) heap) 2 = None"
    by simp
  have live: "storage_keys
      \<lparr>library_type_' = ASSET_LIBRARY_CUSTOM, name_' = ''props'', root_path_' = ''/assets'',
       catalog_service_' = (0::nat), catalog_service_mutex_' = [],
       storage_' = \<lparr>external_assets = [], local_id_assets = [1]\<rparr>\<rparr> \<subseteq> dom ([1 \<mapsto> \<lparr>object = AssetRepresentation_local ''Object/Cube'' (5::nat) (0::nat), use_count = 1\<rparr>] :: (nat, unit, nat) heap)"
    by (simp add: storage_keys_def)
  have dist: "distinct (local_id_assets (storage_'
      \<lparr>library_type_' = ASSET_LIBRARY_CUSTOM, name_' = ''props'', root_path_' = ''/assets'',
       catalog_service_' = (0::nat), catalog_service_mutex_' = [],
       storage_' = \<lparr>external_assets = [], local_id_assets = [1]\<rparr>\<rparr>) @ external_assets (storage_'
      \<lparr>library_type_' = ASSET_LIBRARY_CUSTOM, name_' = ''props'', root_path_' = ''/assets'',
       catalog_service_' = (0::nat), catalog_service_mutex_' = [],
       storage_' = \<lparr>external_assets = [], local_id_assets = [1]\<rparr>\<rparr>))"
    by simp
  note inst = storage_owns_assets [OF fresh live dist]
  have rem: "remove_asset 1
     (([1 \<mapsto> \<lparr>object = AssetRepresentation_local ''Object/Cube'' (5::nat) (0::nat), use_count = 1\<rparr>] :: (nat, unit, nat) heap),
      \<lparr>library_type_' = ASSET_LIBRARY_CUSTOM, name_' = ''props'', root_path_' = ''/assets'',
       catalog_service_' = (0::nat), catalog_service_mutex_' = [],
       storage_' = \<lparr>external_assets = [], local_id_assets = [1]\<rparr>\<rparr>) =
     (True, Map.empty,
      \<lparr>library_type_' = ASSET_LIBRARY_CUSTOM, name_' = ''props'', root_path_' = ''/assets'',
       catalog_service_' = (0::nat), catalog_service_mutex_' = [],
       storage_' = \<lparr>external_assets = [], local_id_assets = []\<rparr>\<rparr>)"
    by (simp add: remove_asset_def shared_ptr_release_def)
  from inst [of 0 "''Material/Steel''" "''Steel''" 3 "()" 5 7]
  show ?thesis
    using fresh live rem by (simp add: storage_keys_def)
qed

text \<open>
  C4: an asset built for an external ID is not local and \<open>local_id\<close> is null; one built
  for an ID of the current file is local and \<open>local_id\<close> is that ID. For every
  representation \<open>local_id\<close> is the wrapped pointer when \<open>is_local_id\<close> holds and null
  otherwise. The flag of an object never changes: adding an asset touches no object at
  another address, and after \<open>remove_asset\<close> or \<open>remap_ids_and_remove_invalid\<close> every
  object still alive has the flag it had.
\<close>

theorem asset_representation_local_flag:
  "is_local_id (AssetRepresentation_external path nm ty md l) = False \<and>
   local_id (AssetRepresentation_external path nm ty md l) = None \<and>
   is_local_id (AssetRepresentation_local path idp l) = True \<and>
   local_id (AssetRepresentation_local path idp l) = Some idp \<and>
   local_id asset =
     (if is_local_id asset
      then (case asset_union_' asset of local_asset_id_' q \<Rightarrow> q | external_asset_' e \<Rightarrow> None)
      else None) \<and>
   (\<forall>q. q \<noteq> p \<longrightarrow>
      fst (snd (add_external_asset this p path nm ty md (h, lib))) q = h q \<and>
      fst (snd (add_local_id_asset this p path idp (h, lib))) q = h q) \<and>
   flags_kept h (fst (snd (remove_asset a (h, lib)))) \<and>
   (\<forall>h' lib'. remap_ids_and_remove_invalid ap (h, lib) = Inr (h', lib') \<longrightarrow> flags_kept h h')"
proof -
  have ctor: "is_local_id (AssetRepresentation_external path nm ty md l) = False"
    "local_id (AssetRepresentation_external path nm ty md l) = None"
    "is_local_id (AssetRepresentation_local path idp l) = True"
    "local_id (AssetRepresentation_local path idp l) = Some idp"
    by (simp_all add: is_local_id_def local_id_def AssetRepresentation_external_def
          AssetRepresentation_local_def)
  have acc: "local_id asset =
     (if is_local_id asset
      then (case asset_union_' asset of local_asset_id_' q \<Rightarrow> q | external_asset_' e \<Rightarrow> None)
      else None)"
    by (simp add: local_id_def is_local_id_def)
  have add: "\<forall>q. q \<noteq> p \<longrightarrow>
      fst (snd (add_external_asset this p path nm ty md (h, lib))) q = h q \<and>
      fst (snd (add_local_id_asset this p path idp (h, lib))) q = h q"
    by (simp add: add_external_asset_def add_local_id_asset_def make_shared_def
          shared_ptr_release_def Let_def)
  show ?thesis
    using ctor acc add flags_kept_remove_asset [of h a lib] flags_kept_remap [of ap h lib]
    by (intro conjI) blast+
qed

theorem asset_representation_local_flag_witness:
  "remap_ids_and_remove_invalid (\<lambda>i. (ID_REMAP_RESULT_SOURCE_REMAPPED, Some 6))
     (([1 \<mapsto> \<lparr>object = AssetRepresentation_local ''Object/Cube'' (5::nat) (0::nat), use_count = 1\<rparr>] :: (nat, unit, nat) heap),
      \<lparr>library_type_' = ASSET_LIBRARY_CUSTOM, name_' = ''props'', root_path_' = ''/assets'',
       catalog_service_' = (0::nat), catalog_service_mutex_' = [],
       storage_' = \<lparr>external_assets = [], local_id_assets = [1]\<rparr>\<rparr>)
   = Inr (([1 \<mapsto> \<lparr>object = (AssetRepresentation_local ''Object/Cube'' (5::nat) (0::nat))
          \<lparr>asset_union_' := local_asset_id_' (Some 6)\<rparr>, use_count = 1\<rparr>] :: (nat, unit, nat) heap),
      \<lparr>library_type_' = ASSET_LIBRARY_CUSTOM, name_' = ''props'', root_path_' = ''/assets'',
       catalog_service_' = (0::nat), catalog_service_mutex_' = [],
       storage_' = \<lparr>external_assets = [], local_id_assets = [1]\<rparr>\<rparr>) \<and>
   flags_kept ([1 \<mapsto> \<lparr>object = AssetRepresentation_local ''Object/Cube'' (5::nat) (0::nat), use_count = 1\<rparr>] :: (nat, unit, nat) heap)
     ([1 \<mapsto> \<lparr>object = (AssetRepresentation_local ''Object/Cube'' (5::nat) (0::nat))
          \<lparr>asset_union_' := local_asset_id_' (Some 6)\<rparr>, use_count = 1\<rparr>] :: (nat, unit, nat) heap) \<and>
   local_id (AssetRepresentation_local ''Object/Cube'' (5::nat) (0::nat)
       :: (nat, unit, nat) AssetRepresentation) = Some 5"
proof -
  have run: "remap_ids_and_remove_invalid (\<lambda>i. (ID_REMAP_RESULT_SOURCE_REMAPPED, Some 6))
     (([1 \<mapsto> \<lparr>object = AssetRepresentation_local ''Object/Cube'' (5::nat) (0::nat), use_count = 1\<rparr>] :: (nat, unit, nat) heap),
      \<lparr>library_type_' = ASSET_LIBRARY_CUSTOM, name_' = ''props'', root_path_' = ''/assets'',
       catalog_service_' = (0::nat), catalog_service_mutex_' = [],
       storage_' = \<lparr>external_assets = [], local_id_assets = [1]\<rparr>\<rparr>)
   = Inr (([1 \<mapsto> \<lparr>object = (AssetRepresentation_local ''Object/Cube'' (5::nat) (0::nat))
          \<lparr>asset_union_' := local_asset_id_' (Some 6)\<rparr>, use_count = 1\<rparr>] :: (nat, unit, nat) heap),
      \<lparr>library_type_' = ASSET_LIBRARY_CUSTOM, name_' = ''props'', root_path_' = ''/assets'',
       catalog_service_' = (0::nat), catalog_service_mutex_' = [],
       storage_' = \<lparr>external_assets = [], local_id_assets = [1]\<rparr>\<rparr>)"
    by (simp add: remap_ids_and_remove_invalid_def AssetRepresentation_local_def is_local_id_def)
  note inst = asset_representation_local_flag
    [where h = "([1 \<mapsto> \<lparr>object = AssetRepresentation_local ''Object/Cube'' (5::nat) (0::nat), use_count = 1\<rparr>] :: (nat, unit, nat) heap)"
       and lib = "\<lparr>library_type_' = ASSET_LIBRARY_CUSTOM, name_' = ''props'', root_path_' = ''/assets'',
       catalog_service_' = (0::nat), catalog_service_mutex_' = [],
       storage_' = \<lparr>external_assets = [], local_id_assets = [1]\<rparr>\<rparr>"
       and ap = "\<lambda>i. (ID_REMAP_RESULT_SOURCE_REMAPPED, Some 6)"
       and path = "''Object/Cube''" and idp = "5::nat" and l = "0::nat"]
  from inst run have "flags_kept ([1 \<mapsto> \<lparr>object = AssetRepresentation_local ''Object/Cube'' (5::nat) (0::nat), use_count = 1\<rparr>] :: (nat, unit, nat) heap)
     ([1 \<mapsto> \<lparr>object = (AssetRepresentation_local ''Object/Cube'' (5::nat) (0::nat))
          \<lparr>asset_union_' := local_asset_id_' (Some 6)\<rparr>, use_count = 1\<rparr>] :: (nat, unit, nat) heap)"
    by blast
  moreover from inst have "local_id (AssetRepresentation_local ''Object/Cube'' (5::nat) (0::nat)
       :: (nat, unit, nat) AssetRepresentation) = Some 5"
    by blast
  ultimately show ?thesis using run by simp
qed

section \<open>Properties of AS\_asset\_full\_path\_explode\_from\_weak\_ref\<close>

lemma c_str_id: "NUL \<notin> set s \<Longrightarrow> c_str s = s"
  by (auto simp add: c_str_def takeWhile_eq_all_conv)

lemma c_string_at_segment:
  "NUL \<notin> set s \<Longrightarrow> length pre = k \<Longrightarrow> c_string_at (pre @ s @ NUL # rest) k = s"
  by (simp add: c_string_at_def takeWhile_append takeWhile_eq_all_conv)

lemma BLI_strncpy_fits:
  "length src < n \<Longrightarrow> BLI_strncpy dst src n = src @ NUL # drop (length src + 1) dst"
  by (cases n) (simp_all add: BLI_strncpy_def Let_def min_def)

lemma update_sep: "length pre = k \<Longrightarrow> (pre @ c # rest)[k := d] = pre @ d # rest"
  by (simp add: list_update_append)

lemma explode_resolved_with_dir:
  assumes len: "length (r_path_buffer out) = FILE_MAX_LIBEXTRA"
    and ne: "dir \<noteq> []" "grp \<noteq> []" "nm \<noteq> []"
    and fits: "length (dir @ s1 # grp @ s2 # nm) < FILE_MAX_LIBEXTRA"
    and nonul: "NUL \<notin> set (dir @ s1 # grp @ s2 # nm)"
  shows "explode_resolved
           \<lparr>full_path = dir @ s1 # grp @ s2 # nm, dir_component = dir,
            group_component = grp, name_component = nm\<rparr> out =
         Inr \<lparr>r_path_buffer = dir @ NUL # grp @ NUL # nm @ NUL #
                  drop (length (dir @ s1 # grp @ s2 # nm) + 1) (r_path_buffer out),
              r_dir = assign_out (r_dir out) (buffer_at 0),
              r_group = assign_out (r_group out) (buffer_at (length dir + 1)),
              r_name = assign_out (r_name out) (buffer_at (length dir + 1 + length grp + 1))\<rparr>"
proof -
  define rest where "rest = drop (length (dir @ s1 # grp @ s2 # nm) + 1) (r_path_buffer out)"
  have copy: "BLI_strncpy (r_path_buffer out) (c_str (dir @ s1 # grp @ s2 # nm))
        FILE_MAX_LIBEXTRA = dir @ s1 # (grp @ s2 # nm @ NUL # rest)"
    using fits nonul by (simp add: c_str_id BLI_strncpy_fits rest_def)
  have first: "buffer_set (dir @ s1 # (grp @ s2 # nm @ NUL # rest)) (length dir) NUL =
      Inr (dir @ NUL # (grp @ s2 # nm @ NUL # rest))"
    by (simp add: buffer_set_def update_sep)
  have second: "buffer_set (dir @ NUL # (grp @ s2 # nm @ NUL # rest))
        (Suc (length dir + length grp)) NUL =
      Inr (dir @ NUL # grp @ NUL # nm @ NUL # rest)"
    using update_sep [of "dir @ NUL # grp" "Suc (length dir + length grp)" s2 "nm @ NUL # rest" NUL]
    by (simp add: buffer_set_def)
  show ?thesis
    unfolding explode_resolved_def rest_def [symmetric]
    using ne by (simp add: Let_def copy first second)
qed

lemma explode_resolved_no_dir:
  assumes len: "length (r_path_buffer out) = FILE_MAX_LIBEXTRA"
    and ne: "grp \<noteq> []" "nm \<noteq> []"
    and fits: "length (grp @ s2 # nm) < FILE_MAX_LIBEXTRA"
    and nonul: "NUL \<notin> set (grp @ s2 # nm)"
  shows "explode_resolved
           \<lparr>full_path = grp @ s2 # nm, dir_component = [],
            group_component = grp, name_component = nm\<rparr> out =
         Inr \<lparr>r_path_buffer = grp @ NUL # nm @ NUL #
                  drop (length (grp @ s2 # nm) + 1) (r_path_buffer out),
              r_dir = assign_out (r_dir out) nullptr,
              r_group = assign_out (r_group out) (buffer_at 0),
              r_name = assign_out (r_name out) (buffer_at (length grp + 1))\<rparr>"
proof -
  define rest where "rest = drop (length (grp @ s2 # nm) + 1) (r_path_buffer out)"
  have copy: "BLI_strncpy (r_path_buffer out) (c_str (grp @ s2 # nm)) FILE_MAX_LIBEXTRA =
      grp @ s2 # (nm @ NUL # rest)"
    using fits nonul by (simp add: c_str_id BLI_strncpy_fits rest_def)
  have first: "buffer_set (grp @ s2 # (nm @ NUL # rest)) (length grp) NUL =
      Inr (grp @ NUL # (nm @ NUL # rest))"
    by (simp add: buffer_set_def update_sep)
  show ?thesis
    unfolding explode_resolved_def rest_def [symmetric]
    using ne by (simp add: Let_def copy first)
qed


lemma take_prefix: "take (length xs) (xs @ ys) = xs"
  by simp

lemma explode_unresolved:
  assumes "AssetLibraryService_get api w = (service, w1)"
    and "resolve_asset_weak_reference_to_exploded_path api service asset_reference w1 = (None, w2)"
    and "length (r_path_buffer out) = FILE_MAX_LIBEXTRA"
  shows "AS_asset_full_path_explode_from_weak_ref api asset_reference out w =
           (Inr \<lparr>r_path_buffer = (r_path_buffer out)[0 := NUL],
                 r_dir = assign_out (r_dir out) nullptr,
                 r_group = assign_out (r_group out) nullptr,
                 r_name = assign_out (r_name out) nullptr\<rparr>, w2)"
  using assms
  by (simp add: AS_asset_full_path_explode_from_weak_ref_def buffer_set_def FILE_MAX_LIBEXTRA_def)

lemma explode_resolved_call:
  assumes "AssetLibraryService_get api w = (service, w1)"
    and "resolve_asset_weak_reference_to_exploded_path api service asset_reference w1 = (Some e, w2)"
  shows "AS_asset_full_path_explode_from_weak_ref api asset_reference out w =
           (explode_resolved e out, w2)"
  using assms by (simp add: AS_asset_full_path_explode_from_weak_ref_def)

lemma c_str_replicate_tail:
  "c \<noteq> NUL \<Longrightarrow> NUL \<notin> set pre \<Longrightarrow> c_str (pre @ replicate n c) = pre @ replicate n c"
  by (auto simp: c_str_def takeWhile_eq_all_conv)

text \<open>
  C8, as the code has it, for a buffer of \<open>FILE_MAX_LIBEXTRA\<close> characters. When the weak
  reference does not resolve, every output pointer that was passed is set to null and the
  buffer holds the empty string. When it resolves to a path without NUL that is shorter
  than the buffer and is laid out as directory, separator, group, separator, name (or as
  group, separator, name when the directory is empty), the buffer starts with the path, the
  separators replaced by NUL; \<open>r_group\<close> and \<open>r_name\<close> point at the group and at the
  name, and \<open>r_dir\<close> points at the directory, or is null when the directory is empty.
\<close>

theorem explode_from_weak_ref_outputs:
  assumes svc: "AssetLibraryService_get api w = (service, w1)"
    and len: "length (r_path_buffer out) = FILE_MAX_LIBEXTRA"
  shows
   "(resolve_asset_weak_reference_to_exploded_path api service asset_reference w1 = (None, w2) \<longrightarrow>
       (\<exists>buf. AS_asset_full_path_explode_from_weak_ref api asset_reference out w =
                (Inr \<lparr>r_path_buffer = buf,
                      r_dir = assign_out (r_dir out) nullptr,
                      r_group = assign_out (r_group out) nullptr,
                      r_name = assign_out (r_name out) nullptr\<rparr>, w2) \<and>
              c_string_at buf 0 = [])) \<and>
    (resolve_asset_weak_reference_to_exploded_path api service asset_reference w1 =
       (Some \<lparr>full_path = dir @ s1 # grp @ s2 # nm, dir_component = dir,
              group_component = grp, name_component = nm\<rparr>, w2) \<and>
     dir \<noteq> [] \<and> grp \<noteq> [] \<and> nm \<noteq> [] \<and> NUL \<notin> set (dir @ s1 # grp @ s2 # nm) \<and>
     length (dir @ s1 # grp @ s2 # nm) < FILE_MAX_LIBEXTRA \<longrightarrow>
       (\<exists>buf. AS_asset_full_path_explode_from_weak_ref api asset_reference out w =
                (Inr \<lparr>r_path_buffer = buf,
                      r_dir = assign_out (r_dir out) (buffer_at 0),
                      r_group = assign_out (r_group out) (buffer_at (length dir + 1)),
                      r_name = assign_out (r_name out)
                                 (buffer_at (length dir + 1 + length grp + 1))\<rparr>, w2) \<and>
              take (length (dir @ s1 # grp @ s2 # nm) + 1) buf =
                dir @ NUL # grp @ NUL # nm @ [NUL] \<and>
              c_string_at buf 0 = dir \<and>
              c_string_at buf (length dir + 1) = grp \<and>
              c_string_at buf (length dir + 1 + length grp + 1) = nm)) \<and>
    (resolve_asset_weak_reference_to_exploded_path api service asset_reference w1 =
       (Some \<lparr>full_path = grp @ s2 # nm, dir_component = [],
              group_component = grp, name_component = nm\<rparr>, w2) \<and>
     grp \<noteq> [] \<and> nm \<noteq> [] \<and> NUL \<notin> set (grp @ s2 # nm) \<and>
     length (grp @ s2 # nm) < FILE_MAX_LIBEXTRA \<longrightarrow>
       (\<exists>buf. AS_asset_full_path_explode_from_weak_ref api asset_reference out w =
                (Inr \<lparr>r_path_buffer = buf,
                      r_dir = assign_out (r_dir out) nullptr,
                      r_group = assign_out (r_group out) (buffer_at 0),
                      r_name = assign_out (r_name out) (buffer_at (length grp + 1))\<rparr>, w2) \<and>
              take (length (grp @ s2 # nm) + 1) buf = grp @ NUL # nm @ [NUL] \<and>
              c_string_at buf 0 = grp \<and>
              c_string_at buf (length grp + 1) = nm))"
proof (intro conjI impI)
  assume "resolve_asset_weak_reference_to_exploded_path api service asset_reference w1 = (None, w2)"
  from explode_unresolved [OF svc this len]
  have "AS_asset_full_path_explode_from_weak_ref api asset_reference out w =
           (Inr \<lparr>r_path_buffer = (r_path_buffer out)[0 := NUL],
                 r_dir = assign_out (r_dir out) nullptr,
                 r_group = assign_out (r_group out) nullptr,
                 r_name = assign_out (r_name out) nullptr\<rparr>, w2)" .
  moreover have "c_string_at ((r_path_buffer out)[0 := NUL]) 0 = []"
    using len by (intro c_string_at_NUL_first) (auto simp: FILE_MAX_LIBEXTRA_def)
  ultimately show "\<exists>buf. AS_asset_full_path_explode_from_weak_ref api asset_reference out w =
                (Inr \<lparr>r_path_buffer = buf,
                      r_dir = assign_out (r_dir out) nullptr,
                      r_group = assign_out (r_group out) nullptr,
                      r_name = assign_out (r_name out) nullptr\<rparr>, w2) \<and>
              c_string_at buf 0 = []"
    by blast
next
  let ?e = "\<lparr>full_path = dir @ s1 # grp @ s2 # nm, dir_component = dir,
              group_component = grp, name_component = nm\<rparr>"
  let ?rest = "drop (length (dir @ s1 # grp @ s2 # nm) + 1) (r_path_buffer out)"
  let ?buf = "dir @ NUL # grp @ NUL # nm @ NUL # ?rest"
  assume a: "resolve_asset_weak_reference_to_exploded_path api service asset_reference w1 =
       (Some ?e, w2) \<and>
     dir \<noteq> [] \<and> grp \<noteq> [] \<and> nm \<noteq> [] \<and> NUL \<notin> set (dir @ s1 # grp @ s2 # nm) \<and>
     length (dir @ s1 # grp @ s2 # nm) < FILE_MAX_LIBEXTRA"
  then have nonul: "NUL \<notin> set dir" "NUL \<notin> set grp" "NUL \<notin> set nm"
    by auto
  have call: "AS_asset_full_path_explode_from_weak_ref api asset_reference out w =
      (explode_resolved ?e out, w2)"
    using a by (intro explode_resolved_call [OF svc]) simp
  have res: "explode_resolved ?e out =
      Inr \<lparr>r_path_buffer = ?buf,
           r_dir = assign_out (r_dir out) (buffer_at 0),
           r_group = assign_out (r_group out) (buffer_at (length dir + 1)),
           r_name = assign_out (r_name out) (buffer_at (length dir + 1 + length grp + 1))\<rparr>"
    using a by (intro explode_resolved_with_dir [OF len]) simp_all
  have t: "take (length (dir @ s1 # grp @ s2 # nm) + 1) ?buf = dir @ NUL # grp @ NUL # nm @ [NUL]"
    using take_prefix [of "dir @ NUL # grp @ NUL # nm @ [NUL]" ?rest] by simp
  have d: "c_string_at ?buf 0 = dir"
    using c_string_at_segment [of dir "[]" 0 "grp @ NUL # nm @ NUL # ?rest"] nonul by simp
  have g: "c_string_at ?buf (length dir + 1) = grp"
    using c_string_at_segment [of grp "dir @ [NUL]" "length dir + 1" "nm @ NUL # ?rest"] nonul
    by simp
  have n: "c_string_at ?buf (length dir + 1 + length grp + 1) = nm"
    using c_string_at_segment [of nm "dir @ NUL # grp @ [NUL]" "length dir + 1 + length grp + 1"
        ?rest] nonul
    by simp
  show "\<exists>buf. AS_asset_full_path_explode_from_weak_ref api asset_reference out w =
                (Inr \<lparr>r_path_buffer = buf,
                      r_dir = assign_out (r_dir out) (buffer_at 0),
                      r_group = assign_out (r_group out) (buffer_at (length dir + 1)),
                      r_name = assign_out (r_name out)
                                 (buffer_at (length dir + 1 + length grp + 1))\<rparr>, w2) \<and>
              take (length (dir @ s1 # grp @ s2 # nm) + 1) buf =
                dir @ NUL # grp @ NUL # nm @ [NUL] \<and>
              c_string_at buf 0 = dir \<and>
              c_string_at buf (length dir + 1) = grp \<and>
              c_string_at buf (length dir + 1 + length grp + 1) = nm"
    using call res t d g n by (intro exI [of _ ?buf]) (simp only: simp_thms)
next
  let ?e = "\<lparr>full_path = grp @ s2 # nm, dir_component = [],
              group_component = grp, name_component = nm\<rparr>"
  let ?rest = "drop (length (grp @ s2 # nm) + 1) (r_path_buffer out)"
  let ?buf = "grp @ NUL # nm @ NUL # ?rest"
  assume a: "resolve_asset_weak_reference_to_exploded_path api service asset_reference w1 =
       (Some ?e, w2) \<and>
     grp \<noteq> [] \<and> nm \<noteq> [] \<and> NUL \<notin> set (grp @ s2 # nm) \<and>
     length (grp @ s2 # nm) < FILE_MAX_LIBEXTRA"
  then have nonul: "NUL \<notin> set grp" "NUL \<notin> set nm"
    by auto
  have call: "AS_asset_full_path_explode_from_weak_ref api asset_reference out w =
      (explode_resolved ?e out, w2)"
    using a by (intro explode_resolved_call [OF svc]) simp
  have res: "explode_resolved ?e out =
      Inr \<lparr>r_path_buffer = ?buf,
           r_dir = assign_out (r_dir out) nullptr,
           r_group = assign_out (r_group out) (buffer_at 0),
           r_name = assign_out (r_name out) (buffer_at (length grp + 1))\<rparr>"
    using a by (intro explode_resolved_no_dir [OF len]) simp_all
  have t: "take (length (grp @ s2 # nm) + 1) ?buf = grp @ NUL # nm @ [NUL]"
    using take_prefix [of "grp @ NUL # nm @ [NUL]" ?rest] by simp
  have g: "c_string_at ?buf 0 = grp"
    using c_string_at_segment [of grp "[]" 0 "nm @ NUL # ?rest"] nonul by simp
  have n: "c_string_at ?buf (length grp + 1) = nm"
    using c_string_at_segment [of nm "grp @ [NUL]" "length grp + 1" ?rest] nonul by simp
  show "\<exists>buf. AS_asset_full_path_explode_from_weak_ref api asset_reference out w =
                (Inr \<lparr>r_path_buffer = buf,
                      r_dir = assign_out (r_dir out) nullptr,
                      r_group = assign_out (r_group out) (buffer_at 0),
                      r_name = assign_out (r_name out) (buffer_at (length grp + 1))\<rparr>, w2) \<and>
              take (length (grp @ s2 # nm) + 1) buf = grp @ NUL # nm @ [NUL] \<and>
              c_string_at buf 0 = grp \<and>
              c_string_at buf (length grp + 1) = nm"
    using call res t g n by (intro exI [of _ ?buf]) (simp only: simp_thms)
qed

theorem explode_from_weak_ref_outputs_witness:
  "map_sum (\<lambda>e. e) (\<lambda>out. (r_dir out, r_group out, r_name out, c_string_at (r_path_buffer out) 0))
     (fst (AS_asset_full_path_explode_from_weak_ref
        \<lparr>AssetLibraryService_get = (\<lambda>w. ((), w)),
         get_asset_library_current_file = (\<lambda>s w. ((), w)),
         get_asset_library_on_disk_custom = (\<lambda>s n d w. ((), w)),
         resolve_asset_weak_reference_to_exploded_path = (\<lambda>s r w. (r, w))\<rparr>
        None
        \<lparr>r_path_buffer = replicate 1090 CHR ''x'', r_dir = Some nullptr,
         r_group = None, r_name = Some nullptr\<rparr> ()))
   = Inr (Some nullptr, None, Some nullptr, []) \<and>
   map_sum (\<lambda>e. e) (\<lambda>out. (r_dir out, r_group out, r_name out,
        c_string_at (r_path_buffer out) 0, c_string_at (r_path_buffer out) 4,
        c_string_at (r_path_buffer out) 13))
     (fst (AS_asset_full_path_explode_from_weak_ref
        \<lparr>AssetLibraryService_get = (\<lambda>w. ((), w)),
         get_asset_library_current_file = (\<lambda>s w. ((), w)),
         get_asset_library_on_disk_custom = (\<lambda>s n d w. ((), w)),
         resolve_asset_weak_reference_to_exploded_path = (\<lambda>s r w. (r, w))\<rparr>
        (Some \<lparr>full_path = ''lib/Material/Steel'', dir_component = ''lib'',
               group_component = ''Material'', name_component = ''Steel''\<rparr>)
        \<lparr>r_path_buffer = replicate 1090 CHR ''x'', r_dir = Some nullptr,
         r_group = None, r_name = Some nullptr\<rparr> ()))
   = Inr (Some (buffer_at 0), None, Some (buffer_at 13), ''lib'', ''Material'', ''Steel'') \<and>
   map_sum (\<lambda>e. e) (\<lambda>out. (r_dir out, r_group out, r_name out,
        c_string_at (r_path_buffer out) 0, c_string_at (r_path_buffer out) 9))
     (fst (AS_asset_full_path_explode_from_weak_ref
        \<lparr>AssetLibraryService_get = (\<lambda>w. ((), w)),
         get_asset_library_current_file = (\<lambda>s w. ((), w)),
         get_asset_library_on_disk_custom = (\<lambda>s n d w. ((), w)),
         resolve_asset_weak_reference_to_exploded_path = (\<lambda>s r w. (r, w))\<rparr>
        (Some \<lparr>full_path = ''Material/Steel'', dir_component = [],
               group_component = ''Material'', name_component = ''Steel''\<rparr>)
        \<lparr>r_path_buffer = replicate 1090 CHR ''x'', r_dir = Some nullptr,
         r_group = None, r_name = Some nullptr\<rparr> ()))
   = Inr (Some nullptr, None, Some (buffer_at 9), ''Material'', ''Steel'')"
proof -
  have svc: "AssetLibraryService_get
        \<lparr>AssetLibraryService_get = (\<lambda>w. ((), w)),
         get_asset_library_current_file = (\<lambda>s w. ((), w)),
         get_asset_library_on_disk_custom = (\<lambda>s n d w. ((), w)),
         resolve_asset_weak_reference_to_exploded_path = (\<lambda>s r w. (r, w))\<rparr> () = ((), ())"
    by simp
  have len: "length (r_path_buffer
        \<lparr>r_path_buffer = replicate 1090 CHR ''x'', r_dir = Some nullptr,
         r_group = None, r_name = Some nullptr\<rparr>) = FILE_MAX_LIBEXTRA"
    by (simp add: FILE_MAX_LIBEXTRA_def)
  note inst = explode_from_weak_ref_outputs [OF svc len]
  have offs: "(4::nat) = Suc (Suc (Suc (Suc 0)))" "(9::nat) = Suc (Suc (Suc (Suc (Suc 4))))"
    "(13::nat) = Suc (Suc (Suc (Suc 9)))"
    by simp_all
  have a: "map_sum (\<lambda>e. e) (\<lambda>out. (r_dir out, r_group out, r_name out, c_string_at (r_path_buffer out) 0))
     (fst (AS_asset_full_path_explode_from_weak_ref
        \<lparr>AssetLibraryService_get = (\<lambda>w. ((), w)),
         get_asset_library_current_file = (\<lambda>s w. ((), w)),
         get_asset_library_on_disk_custom = (\<lambda>s n d w. ((), w)),
         resolve_asset_weak_reference_to_exploded_path = (\<lambda>s r w. (r, w))\<rparr>
        None
        \<lparr>r_path_buffer = replicate 1090 CHR ''x'', r_dir = Some nullptr,
         r_group = None, r_name = Some nullptr\<rparr> ()))
   = Inr (Some nullptr, None, Some nullptr, [])"
    using inst [of None "()"] by (auto simp: assign_out_def)
  have b: "map_sum (\<lambda>e. e) (\<lambda>out. (r_dir out, r_group out, r_name out,
        c_string_at (r_path_buffer out) 0, c_string_at (r_path_buffer out) 4,
        c_string_at (r_path_buffer out) 13))
     (fst (AS_asset_full_path_explode_from_weak_ref
        \<lparr>AssetLibraryService_get = (\<lambda>w. ((), w)),
         get_asset_library_current_file = (\<lambda>s w. ((), w)),
         get_asset_library_on_disk_custom = (\<lambda>s n d w. ((), w)),
         resolve_asset_weak_reference_to_exploded_path = (\<lambda>s r w. (r, w))\<rparr>
        (Some \<lparr>full_path = ''lib/Material/Steel'', dir_component = ''lib'',
               group_component = ''Material'', name_component = ''Steel''\<rparr>)
        \<lparr>r_path_buffer = replicate 1090 CHR ''x'', r_dir = Some nullptr,
         r_group = None, r_name = Some nullptr\<rparr> ()))
   = Inr (Some (buffer_at 0), None, Some (buffer_at 13), ''lib'', ''Material'', ''Steel'')"
    using inst [of "Some \<lparr>full_path = ''lib/Material/Steel'', dir_component = ''lib'',
               group_component = ''Material'', name_component = ''Steel''\<rparr>" "()"
               "''lib''" "CHR ''/''" "''Material''" "CHR ''/''" "''Steel''"]
    by (auto simp: assign_out_def NUL_def FILE_MAX_LIBEXTRA_def offs)
  have c: "map_sum (\<lambda>e. e) (\<lambda>out. (r_dir out, r_group out, r_name out,
        c_string_at (r_path_buffer out) 0, c_string_at (r_path_buffer out) 9))
     (fst (AS_asset_full_path_explode_from_weak_ref
        \<lparr>AssetLibraryService_get = (\<lambda>w. ((), w)),
         get_asset_library_current_file = (\<lambda>s w. ((), w)),
         get_asset_library_on_disk_custom = (\<lambda>s n d w. ((), w)),
         resolve_asset_weak_reference_to_exploded_path = (\<lambda>s r w. (r, w))\<rparr>
        (Some \<lparr>full_path = ''Material/Steel'', dir_component = [],
               group_component = ''Material'', name_component = ''Steel''\<rparr>)
        \<lparr>r_path_buffer = replicate 1090 CHR ''x'', r_dir = Some nullptr,
         r_group = None, r_name = Some nullptr\<rparr> ()))
   = Inr (Some nullptr, None, Some (buffer_at 9), ''Material'', ''Steel'')"
    using inst [of "Some \<lparr>full_path = ''Material/Steel'', dir_component = [],
               group_component = ''Material'', name_component = ''Steel''\<rparr>" "()"
               "[]" "CHR ''/''" "''Material''" "CHR ''/''" "''Steel''"]
    by (auto simp: assign_out_def NUL_def FILE_MAX_LIBEXTRA_def offs)
  from a b c show ?thesis by (intro conjI)
qed

text \<open>
  The claim as written fails when the path does not fit: of a name of 1100 characters the
  buffer keeps 1085, so the string at \<open>r_name\<close> is not the name component.
\<close>

theorem explode_long_path_truncated:
  "map_sum (\<lambda>e. e) (\<lambda>out. (r_name out, c_string_at (r_path_buffer out) 4))
     (fst (AS_asset_full_path_explode_from_weak_ref
        \<lparr>AssetLibraryService_get = (\<lambda>w. ((), w)),
         get_asset_library_current_file = (\<lambda>s w. ((), w)),
         get_asset_library_on_disk_custom = (\<lambda>s n d w. ((), w)),
         resolve_asset_weak_reference_to_exploded_path = (\<lambda>s r w. (r, w))\<rparr>
        (Some \<lparr>full_path = ''d/g/'' @ replicate 1100 CHR ''n'', dir_component = ''d'',
               group_component = ''g'', name_component = replicate 1100 CHR ''n''\<rparr>)
        \<lparr>r_path_buffer = replicate 1090 CHR ''x'', r_dir = Some nullptr,
         r_group = Some nullptr, r_name = Some nullptr\<rparr> ()))
   = Inr (Some (buffer_at 4), replicate 1085 CHR ''n'') \<and>
   replicate 1085 CHR ''n'' \<noteq> replicate 1100 CHR ''n''"
proof -
  have neq: "replicate 1085 CHR ''n'' \<noteq> replicate 1100 CHR ''n''"
    using arg_cong [of "replicate 1085 CHR ''n''" "replicate 1100 CHR ''n''" length] by auto
  have src: "c_str (''d/g/'' @ replicate 1100 CHR ''n'') = ''d/g/'' @ replicate 1100 CHR ''n''"
    by (rule c_str_replicate_tail) (simp_all add: NUL_def)
  have copy: "BLI_strncpy (replicate 1090 CHR ''x'') (''d/g/'' @ replicate 1100 CHR ''n'')
        FILE_MAX_LIBEXTRA = ''d/g/'' @ replicate 1085 CHR ''n'' @ [NUL]"
    by (simp add: BLI_strncpy_def FILE_MAX_LIBEXTRA_def)
  have str: "c_string_at (''d'' @ NUL # ''g'' @ NUL # replicate 1085 CHR ''n'' @ [NUL]) 4 =
      replicate 1085 CHR ''n''"
    by (simp add: c_string_at_def takeWhile_append NUL_def)
  show ?thesis
    using neq
    by (simp add: AS_asset_full_path_explode_from_weak_ref_def explode_resolved_def Let_def
          src [simplified] copy [simplified] buffer_set_def assign_out_def str [simplified])
qed

section \<open>Properties of immDrawPixelsTexScaled\_clipping and its wrappers\<close>

lemma c_div_nonneg: "0 \<le> a \<Longrightarrow> 0 < b \<Longrightarrow> c_div a b = a div b"
  by (cases "a = 0") (simp_all add: c_div_def)

lemma nsubparts_eq:
  assumes "0 \<le> img" and "0 < offset" and "img + (offset - 1) \<le> INT_MAX"
  shows "nsubparts img offset = (img + (offset - 1)) div offset"
proof -
  have "int32_wrap (img + (offset - 1)) = img + (offset - 1)"
    using assms by (intro int32_wrap_id) (simp_all add: INT_MAX_def)
  then show ?thesis
    using assms by (simp add: nsubparts_def c_div_nonneg)
qed

lemma ceiling_div_const:
  assumes b: "0 < b"
  shows "\<lceil>real_of_int a / real_of_int b\<rceil> = (a + (b - 1)) div b"
proof -
  define q where "q = (a + (b - 1)) div b"
  define r where "r = (a + (b - 1)) mod b"
  have r: "0 \<le> r" "r < b"
    using b by (simp_all add: r_def)
  have "a + (b - 1) = b * q + r"
    by (simp add: q_def r_def)
  then have "- a = b * (- q) + (b - 1 - r)"
    by (simp add: algebra_simps)
  moreover have "0 \<le> b - 1 - r" "b - 1 - r < b"
    using r by simp_all
  ultimately have "- a div b = - q"
    by (rule int_div_pos_eq)
  then have "- (- a div b) = q"
    by simp
  then show ?thesis
    unfolding ceiling_divide_eq_div q_def .
qed

lemma for_loop_done: "n \<le> i \<Longrightarrow> for_loop i n body = []"
  by (subst for_loop.simps) simp

lemma for_loop_step: "i < n \<Longrightarrow> for_loop i n body = body i @ for_loop (i + 1) n body"
  by (subst for_loop.simps) simp

lemma set_for_loop:
  "set (for_loop i n body) = (\<Union>j\<in>{i..<n}. set (body j))"
proof (induction i n body rule: for_loop.induct)
  case (1 i n body)
  show ?case
  proof (cases "i < n")
    case True
    have split: "{i..<n} = insert i {i + 1..<n}"
      using True by auto
    show ?thesis
      using True 1 by (simp add: for_loop_step split)
  next
    case False
    then show ?thesis by (simp add: for_loop_done)
  qed
qed

lemma upload_subpart_fits:
  assumes "1 \<le> subpart_w" "subpart_w \<le> tex_w" "1 \<le> subpart_h" "subpart_h \<le> tex_h"
    and "c \<in> set (upload_subpart data_type rect format components img_w tex_w tex_h
            offset_x offset_y subpart_x subpart_y subpart_w subpart_h)"
  shows "upload_fits tex_w tex_h c"
  using assms by (auto simp: upload_subpart_def Let_def split: if_splits)

lemma if_chain3:
  "r = (if a then [] else if b then [] else if c then [] else y) \<Longrightarrow>
   r = [] \<or> (\<not> a \<and> r = y)"
  by simp

lemma if_chain3_taken:
  "r = (if a then [] else if b \<and> b' then [] else if b \<and> c' then [] else y) \<Longrightarrow>
   \<not> a \<Longrightarrow> \<not> b \<Longrightarrow> r = y"
  by simp

lemma upload_type_if:
  "(if t = GL_FLOAT then upload_subpart GL_FLOAT r f c iw tw th ox oy sx sy sw sh
    else upload_subpart GL_UNSIGNED_BYTE r f c iw tw th ox oy sx sy sw sh) =
   upload_subpart (if t = GL_FLOAT then GL_FLOAT else GL_UNSIGNED_BYTE)
     r f c iw tw th ox oy sx sy sw sh"
  by simp

lemma draw_subpart_result:
  fixes img_w subpart_x offset_x tex_w img_h subpart_y offset_y tex_h :: int
  defines "sw \<equiv> (if img_w - subpart_x * offset_x < tex_w then img_w - subpart_x * offset_x else tex_w)"
    and "sh \<equiv> (if img_h - subpart_y * offset_y < tex_h then img_h - subpart_y * offset_y else tex_h)"
  shows "draw_subpart fl pos texco x y img_w img_h format gl_type rect scaleX scaleY
            clip_min_x clip_min_y clip_max_x clip_max_y xzoom yzoom
            tex_w tex_h seamless offset_x offset_y components subpart_x subpart_y = [] \<or>
         (\<not> (sw \<le> seamless \<or> sh \<le> seamless) \<and>
          (\<exists>quad.
             draw_subpart fl pos texco x y img_w img_h format gl_type rect scaleX scaleY
               clip_min_x clip_min_y clip_max_x clip_max_y xzoom yzoom
               tex_w tex_h seamless offset_x offset_y components subpart_x subpart_y =
             upload_subpart (if gl_type = GL_FLOAT then GL_FLOAT else GL_UNSIGNED_BYTE)
               rect format components img_w tex_w tex_h offset_x offset_y
               subpart_x subpart_y sw sh @ quad \<and>
             filter is_upload quad = []))"
  unfolding sw_def sh_def
  using draw_subpart_def [unfolded Let_def upload_type_if, THEN if_chain3,
      of fl pos texco x y img_w img_h format gl_type rect scaleX scaleY
         clip_min_x clip_min_y clip_max_x clip_max_y xzoom yzoom
         tex_w tex_h seamless offset_x offset_y components subpart_x subpart_y]
  apply (elim disjE conjE)
   apply (rule disjI1, assumption)
  apply (rule disjI2, rule conjI, assumption)
  apply (rule exI, rule conjI, assumption)
  apply simp
  done

lemma draw_subpart_unclipped:
  fixes img_w subpart_x offset_x tex_w img_h subpart_y offset_y tex_h :: int
  defines "sw \<equiv> (if img_w - subpart_x * offset_x < tex_w then img_w - subpart_x * offset_x else tex_w)"
    and "sh \<equiv> (if img_h - subpart_y * offset_y < tex_h then img_h - subpart_y * offset_y else tex_h)"
  assumes noclip: "\<not> use_clipping fl clip_min_x clip_min_y clip_max_x clip_max_y"
    and size: "\<not> (sw \<le> seamless \<or> sh \<le> seamless)"
  shows "\<exists>quad.
             draw_subpart fl pos texco x y img_w img_h format gl_type rect scaleX scaleY
               clip_min_x clip_min_y clip_max_x clip_max_y xzoom yzoom
               tex_w tex_h seamless offset_x offset_y components subpart_x subpart_y =
             upload_subpart (if gl_type = GL_FLOAT then GL_FLOAT else GL_UNSIGNED_BYTE)
               rect format components img_w tex_w tex_h offset_x offset_y
               subpart_x subpart_y sw sh @ quad \<and>
             filter is_upload quad = []"
  using size unfolding sw_def sh_def
  apply -
  apply (rule exI, rule conjI)
   apply (rule draw_subpart_def [unfolded Let_def upload_type_if, THEN if_chain3_taken])
    apply assumption
   apply (rule noclip)
  apply simp
  done

lemma tile_uploads_Nil: "tile_uploads [] = []"
  by (simp add: tile_uploads_def)

lemma tile_uploads_append: "tile_uploads (a @ b) = tile_uploads a @ tile_uploads b"
  by (simp add: tile_uploads_def)

lemma tile_upload_is_upload: "is_tile_upload c \<Longrightarrow> is_upload c"
  by (cases c) simp_all

lemma tile_uploads_no_upload: "filter is_upload q = [] \<Longrightarrow> tile_uploads q = []"
  by (auto simp: tile_uploads_def filter_empty_conv dest: tile_upload_is_upload)

lemma upload_fits_no_upload: "\<not> is_upload c \<Longrightarrow> upload_fits tw th c"
  by (cases c) simp_all

lemma tile_uploads_upload_subpart:
  "0 < sw \<Longrightarrow> 0 < sh \<Longrightarrow>
   tile_uploads (upload_subpart ty rect format comps img_w tex_w tex_h ox oy sx sy sw sh) =
     [glTexSubImage2D GL_TEXTURE_2D 0 0 0 sw sh format ty rect
        (size_t_wrap (sy * oy * img_w * comps + int32_wrap (sx * ox * comps)))]"
  by (simp add: upload_subpart_def tile_uploads_def Let_def)

lemma draw_subpart_fits:
  assumes "0 \<le> seamless"
    and "c \<in> set (draw_subpart fl pos texco x y img_w img_h format gl_type rect scaleX scaleY
            clip_min_x clip_min_y clip_max_x clip_max_y xzoom yzoom
            tex_w tex_h seamless offset_x offset_y components subpart_x subpart_y)"
  shows "upload_fits tex_w tex_h c"
proof -
  define sw where "sw =
    (if img_w - subpart_x * offset_x < tex_w then img_w - subpart_x * offset_x else tex_w)"
  define sh where "sh =
    (if img_h - subpart_y * offset_y < tex_h then img_h - subpart_y * offset_y else tex_h)"
  have le: "sw \<le> tex_w" "sh \<le> tex_h"
    by (simp_all add: sw_def sh_def)
  from draw_subpart_result [of fl pos texco x y img_w img_h format gl_type rect scaleX scaleY
            clip_min_x clip_min_y clip_max_x clip_max_y xzoom yzoom
            tex_w tex_h seamless offset_x offset_y components subpart_x subpart_y]
  consider "draw_subpart fl pos texco x y img_w img_h format gl_type rect scaleX scaleY
            clip_min_x clip_min_y clip_max_x clip_max_y xzoom yzoom
            tex_w tex_h seamless offset_x offset_y components subpart_x subpart_y = []"
    | quad where "seamless < sw" "seamless < sh" "filter is_upload quad = []"
       "draw_subpart fl pos texco x y img_w img_h format gl_type rect scaleX scaleY
            clip_min_x clip_min_y clip_max_x clip_max_y xzoom yzoom
            tex_w tex_h seamless offset_x offset_y components subpart_x subpart_y =
        upload_subpart (if gl_type = GL_FLOAT then GL_FLOAT else GL_UNSIGNED_BYTE)
               rect format components img_w tex_w tex_h offset_x offset_y
               subpart_x subpart_y sw sh @ quad"
    unfolding sw_def sh_def by (elim disjE conjE exE) (simp_all add: not_le)
  then show ?thesis
  proof cases
    case 1
    with assms(2) show ?thesis by simp
  next
    case 2
    from assms(2) 2(4) consider
      "c \<in> set (upload_subpart (if gl_type = GL_FLOAT then GL_FLOAT else GL_UNSIGNED_BYTE)
               rect format components img_w tex_w tex_h offset_x offset_y
               subpart_x subpart_y sw sh)"
      | "c \<in> set quad"
      by auto
    then show ?thesis
    proof cases
      case 1
      then show ?thesis
        using assms(1) 2(1,2) le by (intro upload_subpart_fits [OF _ _ _ _ 1]) simp_all
    next
      case 2
      with \<open>filter is_upload quad = []\<close> have "\<not> is_upload c"
        by (auto simp: filter_empty_conv)
      then show ?thesis by (rule upload_fits_no_upload)
    qed
  qed
qed

lemma seamless_mode_nonneg: "0 \<le> seamless_mode tw th iw ih"
  by (simp add: seamless_mode_def)

lemma get_cached_work_texture_result:
  obtains cached t where
    "get_cached_work_texture env texid = (cached :: ('f, 'p) gl_call list, 256, 256, t)"
    and "filter is_upload cached = []"
  by (cases "texid = -1") (simp_all add: get_cached_work_texture_def Let_def)

lemma regroup_early: "a = a @ [] @ []"
  by simp

lemma regroup_drawn: "a @ b @ c @ d @ m @ e = (a @ b @ c @ d) @ m @ e"
  by simp

lemma imm_calls_structure:
  fixes fl :: "'f float_ops" and rect :: 'p
  shows "\<exists>pre post. filter is_upload pre = [] \<and> filter is_upload post = [] \<and>
     fst (immDrawPixelsTexScaled_clipping fl env texid x y img_w img_h format
            gl_type zoomfilter rect scaleX scaleY clip_min_x clip_min_y clip_max_x clip_max_y
            xzoom yzoom color) =
     pre @
     (if format \<noteq> GL_RGBA \<and> format \<noteq> GL_RGB \<and> format \<noteq> GL_RED then []
      else for_loop 0 (nsubparts img_h (256 - seamless_mode 256 256 img_w img_h))
              (\<lambda>subpart_y.
                 for_loop 0 (nsubparts img_w (256 - seamless_mode 256 256 img_w img_h))
                   (\<lambda>subpart_x.
                      draw_subpart fl (attrib_pos env) (attrib_texco env) x y img_w img_h format
                        gl_type rect scaleX scaleY clip_min_x clip_min_y clip_max_x clip_max_y
                        xzoom yzoom 256 256 (seamless_mode 256 256 img_w img_h)
                        (256 - seamless_mode 256 256 img_w img_h)
                        (256 - seamless_mode 256 256 img_w img_h)
                        (if format = GL_RGBA then 4 else if format = GL_RGB then 3 else 1)
                        subpart_x subpart_y))) @
     post"
proof -
  obtain cached t where
    G: "get_cached_work_texture env texid = (cached :: ('f, 'p) gl_call list, 256, 256, t)"
    and Gc: "filter is_upload cached = []"
    by (rule get_cached_work_texture_result)
  show ?thesis
  proof (cases "format \<noteq> GL_RGBA \<and> format \<noteq> GL_RGB \<and> format \<noteq> GL_RED")
    case True
    show ?thesis
      unfolding immDrawPixelsTexScaled_clipping_def G Let_def prod.case
      apply (simp only: True if_True if_False fst_conv simp_thms)
      apply (rule exI, rule exI, intro conjI)
        apply (rule_tac [3] regroup_early)
       apply (simp add: Gc)
      apply simp
      done
  next
    case False
    show ?thesis
      unfolding immDrawPixelsTexScaled_clipping_def G Let_def prod.case
      apply (simp only: False if_False fst_conv simp_thms)
      apply (rule exI, rule exI, intro conjI)
        apply (rule_tac [3] regroup_drawn)
       apply (simp add: Gc)
      apply simp
      done
  qed
qed

lemma structure_all:
  assumes "\<exists>pre post. filter is_upload pre = [] \<and> filter is_upload post = [] \<and>
      calls = pre @ (if b then [] else for_loop 0 ny (\<lambda>sy. for_loop 0 nx (body sy))) @ post"
    and body: "\<And>sy sx c. c \<in> set (body sy sx) \<Longrightarrow> P c"
    and other: "\<And>c. \<not> is_upload c \<Longrightarrow> P c"
    and mem: "c \<in> set calls"
  shows "P c"
proof -
  from assms(1) obtain pre post where np: "filter is_upload pre = []" "filter is_upload post = []"
    and eq: "calls = pre @ (if b then [] else for_loop 0 ny (\<lambda>sy. for_loop 0 nx (body sy))) @ post"
    by blast
  from mem eq consider "c \<in> set pre" | "c \<in> set post" | sy sx where "c \<in> set (body sy sx)"
    by (auto simp: set_for_loop split: if_splits)
  then show ?thesis
  proof cases
    case 1
    with np(1) have "\<not> is_upload c" by (auto simp: filter_empty_conv)
    then show ?thesis by (rule other)
  next
    case 2
    with np(2) have "\<not> is_upload c" by (auto simp: filter_empty_conv)
    then show ?thesis by (rule other)
  next
    case 3
    then show ?thesis by (rule body)
  qed
qed

lemma imm_uploads_fit:
  fixes fl :: "'f float_ops" and rect :: 'p
  assumes "c \<in> set (fst (immDrawPixelsTexScaled_clipping fl env texid x y img_w img_h format
            gl_type zoomfilter rect scaleX scaleY clip_min_x clip_min_y clip_max_x clip_max_y
            xzoom yzoom color))"
  shows "upload_fits 256 256 c"
  using imm_calls_structure _ _ assms
proof (rule structure_all [where P = "upload_fits 256 256"])
  fix sy sx c
  assume "c \<in> set (draw_subpart fl (attrib_pos env) (attrib_texco env) x y img_w img_h format
              gl_type rect scaleX scaleY clip_min_x clip_min_y clip_max_x clip_max_y
              xzoom yzoom 256 256 (seamless_mode 256 256 img_w img_h)
              (256 - seamless_mode 256 256 img_w img_h)
              (256 - seamless_mode 256 256 img_w img_h)
              (if format = GL_RGBA then 4 else if format = GL_RGB then 3 else 1) sx sy)"
  then show "upload_fits 256 256 c"
    by (rule draw_subpart_fits [OF seamless_mode_nonneg])
next
  fix c :: "('f, 'p) gl_call"
  assume "\<not> is_upload c"
  then show "upload_fits 256 256 c" by (rule upload_fits_no_upload)
qed

lemma imm_tile_uploads:
  fixes fl :: "'f float_ops" and rect :: 'p
  assumes "format = GL_RGBA \<or> format = GL_RGB \<or> format = GL_RED"
  shows "tile_uploads (fst (immDrawPixelsTexScaled_clipping fl env texid x y img_w img_h format
            gl_type zoomfilter rect scaleX scaleY clip_min_x clip_min_y clip_max_x clip_max_y
            xzoom yzoom color)) =
         tile_uploads
           (for_loop 0 (nsubparts img_h (256 - seamless_mode 256 256 img_w img_h))
              (\<lambda>subpart_y.
                 for_loop 0 (nsubparts img_w (256 - seamless_mode 256 256 img_w img_h))
                   (\<lambda>subpart_x.
                      draw_subpart fl (attrib_pos env) (attrib_texco env) x y img_w img_h format
                        gl_type rect scaleX scaleY clip_min_x clip_min_y clip_max_x clip_max_y
                        xzoom yzoom 256 256 (seamless_mode 256 256 img_w img_h)
                        (256 - seamless_mode 256 256 img_w img_h)
                        (256 - seamless_mode 256 256 img_w img_h)
                        (if format = GL_RGBA then 4 else if format = GL_RGB then 3 else 1)
                        subpart_x subpart_y)))"
proof -
  have valid: "\<not> (format \<noteq> GL_RGBA \<and> format \<noteq> GL_RGB \<and> format \<noteq> GL_RED)"
    using assms by blast
  from imm_calls_structure [of fl env texid x y img_w img_h format gl_type zoomfilter rect
      scaleX scaleY clip_min_x clip_min_y clip_max_x clip_max_y xzoom yzoom color]
  show ?thesis
    unfolding if_not_P [OF valid]
    by (elim exE conjE) (simp add: tile_uploads_append tile_uploads_no_upload)
qed

lemma draw_subpart_tile:
  fixes img_w subpart_x offset_x tex_w img_h subpart_y offset_y tex_h :: int
  defines "sw \<equiv> (if img_w - subpart_x * offset_x < tex_w then img_w - subpart_x * offset_x else tex_w)"
    and "sh \<equiv> (if img_h - subpart_y * offset_y < tex_h then img_h - subpart_y * offset_y else tex_h)"
  assumes noclip: "\<not> use_clipping fl clip_min_x clip_min_y clip_max_x clip_max_y"
    and size: "seamless < sw" "seamless < sh" and seam: "0 \<le> seamless"
  shows "tile_uploads
           (draw_subpart fl pos texco x y img_w img_h format gl_type rect scaleX scaleY
              clip_min_x clip_min_y clip_max_x clip_max_y xzoom yzoom
              tex_w tex_h seamless offset_x offset_y components subpart_x subpart_y) =
         [glTexSubImage2D GL_TEXTURE_2D 0 0 0 sw sh format
            (if gl_type = GL_FLOAT then GL_FLOAT else GL_UNSIGNED_BYTE) rect
            (size_t_wrap (subpart_y * offset_y * img_w * components +
                          int32_wrap (subpart_x * offset_x * components)))]"
proof -
  have "\<not> (sw \<le> seamless \<or> sh \<le> seamless)"
    using size by simp
  from draw_subpart_unclipped [OF noclip this [unfolded sw_def sh_def],
      where pos = pos and texco = texco and x = x and y = y and format = format
        and gl_type = gl_type and rect = rect and scaleX = scaleX and scaleY = scaleY
        and xzoom = xzoom and yzoom = yzoom and components = components]
  obtain quad where
    "draw_subpart fl pos texco x y img_w img_h format gl_type rect scaleX scaleY
       clip_min_x clip_min_y clip_max_x clip_max_y xzoom yzoom
       tex_w tex_h seamless offset_x offset_y components subpart_x subpart_y =
     upload_subpart (if gl_type = GL_FLOAT then GL_FLOAT else GL_UNSIGNED_BYTE)
       rect format components img_w tex_w tex_h offset_x offset_y
       subpart_x subpart_y sw sh @ quad"
    and "filter is_upload quad = []"
    unfolding sw_def sh_def by blast
  moreover have "0 < sw" "0 < sh"
    using size seam by simp_all
  ultimately show ?thesis
    by (simp add: tile_uploads_append tile_uploads_no_upload tile_uploads_upload_subpart)
qed

lemma seamless_mode_256:
  "seamless_mode 256 256 img_w img_h = (if 256 < img_w \<or> 256 < img_h then 2 else 0)"
  by (simp add: seamless_mode_def)

lemma nsubparts_one:
  assumes "1 \<le> img" "img \<le> 256"
  shows "nsubparts img 256 = 1"
proof -
  have "nsubparts img 256 = (img + (256 - 1)) div 256"
    using assms by (intro nsubparts_eq) (simp_all add: INT_MAX_def)
  also have "img + (256 - 1) = 256 * 1 + (img - 1)"
    by simp
  also have "(256 * 1 + (img - 1)) div 256 = 1"
    using assms by (intro int_div_pos_eq [where r = "img - 1"]) simp_all
  finally show ?thesis .
qed

lemma nsubparts_ceiling:
  assumes "0 \<le> img" "img \<le> INT_MAX - 253"
  shows "nsubparts img 254 = \<lceil>real_of_int img / 254\<rceil>"
proof -
  have "nsubparts img 254 = (img + (254 - 1)) div 254"
    using assms by (intro nsubparts_eq) simp_all
  also have "\<dots> = \<lceil>real_of_int img / real_of_int 254\<rceil>"
    by (rule ceiling_div_const [symmetric]) simp
  finally show ?thesis by simp
qed

lemma nsubparts_ge:
  assumes "0 \<le> img" "img \<le> INT_MAX - 253" "254 * k - 253 \<le> img" "0 \<le> k"
  shows "k \<le> nsubparts img 254"
proof -
  have "nsubparts img 254 = (img + (254 - 1)) div 254"
    using assms by (intro nsubparts_eq) simp_all
  moreover have "(254 * k) div 254 \<le> (img + (254 - 1)) div 254"
    using assms by (intro zdiv_mono1) simp_all
  ultimately show ?thesis by simp
qed

lemma for_loop_single: "for_loop 0 1 body = body 0"
  by (simp add: for_loop_step [of 0 1] for_loop_done)

lemma ceiling_one: "1 \<le> img \<Longrightarrow> img \<le> 256 \<Longrightarrow> \<lceil>real_of_int img / 256\<rceil> = 1"
  by (simp add: ceiling_eq_iff)

lemma imm_single_tile:
  fixes fl :: "'f float_ops" and rect :: 'p
  assumes dims: "1 \<le> img_w" "img_w \<le> 256" "1 \<le> img_h" "img_h \<le> 256"
    and fmt: "format = GL_RGBA \<or> format = GL_RGB \<or> format = GL_RED"
    and noclip: "\<not> use_clipping fl clip_min_x clip_min_y clip_max_x clip_max_y"
  shows "tile_uploads (fst (immDrawPixelsTexScaled_clipping fl env texid x y img_w img_h format
            gl_type zoomfilter rect scaleX scaleY clip_min_x clip_min_y clip_max_x clip_max_y
            xzoom yzoom color)) =
         [glTexSubImage2D GL_TEXTURE_2D 0 0 0 img_w img_h format
            (if gl_type = GL_FLOAT then GL_FLOAT else GL_UNSIGNED_BYTE) rect 0]"
proof -
  have s: "seamless_mode 256 256 img_w img_h = 0"
    using dims by (simp add: seamless_mode_256)
  have n: "nsubparts img_w 256 = 1" "nsubparts img_h 256 = 1"
    using dims by (simp_all add: nsubparts_one)
  have tile: "tile_uploads
      (draw_subpart fl (attrib_pos env) (attrib_texco env) x y img_w img_h format
         gl_type rect scaleX scaleY clip_min_x clip_min_y clip_max_x clip_max_y
         xzoom yzoom 256 256 0 256 256
         (if format = GL_RGBA then 4 else if format = GL_RGB then 3 else 1) 0 0) =
      [glTexSubImage2D GL_TEXTURE_2D 0 0 0 img_w img_h format
         (if gl_type = GL_FLOAT then GL_FLOAT else GL_UNSIGNED_BYTE) rect 0]"
    using dims
    by (subst draw_subpart_tile [OF noclip]) (simp_all add: size_t_wrap_def int32_wrap_def)
  show ?thesis
    by (simp only: imm_tile_uploads [OF fmt] s n diff_zero for_loop_single tile)
qed

lemma length_tile_uploads_step:
  "i < n \<Longrightarrow>
   length (tile_uploads (body i)) \<le> length (tile_uploads (for_loop i n body))"
  by (simp add: for_loop_step tile_uploads_append)

lemma length_tile_uploads_two:
  "i + 1 < n \<Longrightarrow>
   length (tile_uploads (body i)) + length (tile_uploads (body (i + 1)))
     \<le> length (tile_uploads (for_loop i n body))"
  by (simp add: for_loop_step [of i n] for_loop_step [of "i + 1" n] tile_uploads_append)

lemma imm_two_tiles:
  fixes fl :: "'f float_ops" and rect :: 'p
  assumes big: "256 < img_w \<or> 256 < img_h"
    and dims: "3 \<le> img_w" "img_w \<le> INT_MAX - 253" "3 \<le> img_h" "img_h \<le> INT_MAX - 253"
    and fmt: "format = GL_RGBA \<or> format = GL_RGB \<or> format = GL_RED"
    and noclip: "\<not> use_clipping fl clip_min_x clip_min_y clip_max_x clip_max_y"
  shows "2 \<le> length (tile_uploads (fst (immDrawPixelsTexScaled_clipping fl env texid x y
            img_w img_h format gl_type zoomfilter rect scaleX scaleY
            clip_min_x clip_min_y clip_max_x clip_max_y xzoom yzoom color)))"
proof -
  define comps :: int where "comps = (if format = GL_RGBA then 4 else if format = GL_RGB then 3 else 1)"
  define body where "body = (\<lambda>subpart_y subpart_x.
      draw_subpart fl (attrib_pos env) (attrib_texco env) x y img_w img_h format
         gl_type rect scaleX scaleY clip_min_x clip_min_y clip_max_x clip_max_y
         xzoom yzoom 256 256 2 254 254 comps subpart_x subpart_y)"
  have s: "seamless_mode 256 256 img_w img_h = 2"
    using big by (simp add: seamless_mode_256)
  have calls: "tile_uploads (fst (immDrawPixelsTexScaled_clipping fl env texid x y
            img_w img_h format gl_type zoomfilter rect scaleX scaleY
            clip_min_x clip_min_y clip_max_x clip_max_y xzoom yzoom color)) =
      tile_uploads (for_loop 0 (nsubparts img_h 254) (\<lambda>sy. for_loop 0 (nsubparts img_w 254) (body sy)))"
    by (simp add: imm_tile_uploads [OF fmt] s body_def comps_def)
  have one: "length (tile_uploads (body sy sx)) = 1"
    if "2 < (if img_w - sx * 254 < 256 then img_w - sx * 254 else 256)"
      and "2 < (if img_h - sy * 254 < 256 then img_h - sy * 254 else 256)" for sy sx
    unfolding body_def by (subst draw_subpart_tile [OF noclip that]) simp_all
  have nx: "1 \<le> nsubparts img_w 254" and ny: "1 \<le> nsubparts img_h 254"
    using dims by (simp_all add: nsubparts_ge [where k = 1])
  show ?thesis
  proof (cases "256 < img_w")
    case True
    then have nx2: "0 + 1 < nsubparts img_w 254"
      using dims nsubparts_ge [of img_w 2] by simp
    have "length (tile_uploads (body 0 0)) + length (tile_uploads (body 0 (0 + 1)))
        \<le> length (tile_uploads (for_loop 0 (nsubparts img_w 254) (body 0)))"
      using nx2 by (rule length_tile_uploads_two)
    moreover have "length (tile_uploads (body 0 0)) = 1" "length (tile_uploads (body 0 (0 + 1))) = 1"
      using True dims by (simp_all add: one)
    moreover have "length (tile_uploads (for_loop 0 (nsubparts img_w 254) (body 0)))
        \<le> length (tile_uploads
              (for_loop 0 (nsubparts img_h 254) (\<lambda>sy. for_loop 0 (nsubparts img_w 254) (body sy))))"
      using ny by (intro length_tile_uploads_step) simp
    ultimately show ?thesis
      unfolding calls by simp
  next
    case False
    with big have h: "256 < img_h" by simp
    then have ny2: "0 + 1 < nsubparts img_h 254"
      using dims nsubparts_ge [of img_h 2] by simp
    have "length (tile_uploads (for_loop 0 (nsubparts img_w 254) (body 0))) +
          length (tile_uploads (for_loop 0 (nsubparts img_w 254) (body (0 + 1))))
        \<le> length (tile_uploads
              (for_loop 0 (nsubparts img_h 254) (\<lambda>sy. for_loop 0 (nsubparts img_w 254) (body sy))))"
      using ny2 by (rule length_tile_uploads_two)
    moreover have "length (tile_uploads (body 0 0))
        \<le> length (tile_uploads (for_loop 0 (nsubparts img_w 254) (body 0)))"
      "length (tile_uploads (body (0 + 1) 0))
        \<le> length (tile_uploads (for_loop 0 (nsubparts img_w 254) (body (0 + 1))))"
      using nx by (simp_all add: length_tile_uploads_step)
    moreover have "length (tile_uploads (body 0 0)) = 1" "length (tile_uploads (body (0 + 1) 0)) = 1"
      using h dims by (simp_all add: one)
    ultimately show ?thesis
      unfolding calls by simp
  qed
qed

lemma draw_subpart_skipped:
  fixes img_w subpart_x offset_x tex_w img_h subpart_y offset_y tex_h :: int
  assumes "(if img_w - subpart_x * offset_x < tex_w then img_w - subpart_x * offset_x else tex_w)
             \<le> seamless \<or>
           (if img_h - subpart_y * offset_y < tex_h then img_h - subpart_y * offset_y else tex_h)
             \<le> seamless"
  shows "draw_subpart fl pos texco x y img_w img_h format gl_type rect scaleX scaleY
            clip_min_x clip_min_y clip_max_x clip_max_y xzoom yzoom
            tex_w tex_h seamless offset_x offset_y components subpart_x subpart_y = []"
  unfolding draw_subpart_def Let_def
  by (rule if_P) (rule assms)

lemma for_loop_concat:
  "for_loop i n body = concat (map (\<lambda>k. body (i + int k)) [0..<nat (n - i)])"
proof (induction i n body rule: for_loop.induct)
  case (1 i n body)
  show ?case
  proof (cases "i < n")
    case True
    then have len: "nat (n - i) = Suc (nat (n - (i + 1)))"
      by simp
    have "map (\<lambda>k. body (i + int k)) [0..<Suc (nat (n - (i + 1)))] =
          body i # map (\<lambda>k. body (i + 1 + int k)) [0..<nat (n - (i + 1))]"
      by (simp add: upt_conv_Cons map_Suc_upt [symmetric] ac_simps del: upt_Suc)
    then show ?thesis
      using True 1 [OF True] by (simp add: for_loop_step len del: upt_Suc)
  next
    case False
    then show ?thesis by (simp add: for_loop_done)
  qed
qed

lemma for_loop_prefix:
  assumes c: "0 \<le> c" "c \<le> n"
    and low: "\<And>k. 0 \<le> k \<Longrightarrow> k < c \<Longrightarrow> body k = g k"
    and high: "\<And>k. c \<le> k \<Longrightarrow> k < n \<Longrightarrow> body k = []"
  shows "for_loop 0 n body = concat (map (\<lambda>k. g (int k)) [0..<nat c])"
proof -
  have split: "[0..<nat n] = [0..<nat c] @ [nat c..<nat n]"
    using c upt_add_eq_append [of 0 "nat c" "nat n - nat c"] by simp
  have a: "map (\<lambda>k. body (int k)) [0..<nat c] = map (\<lambda>k. g (int k)) [0..<nat c]"
    using low by (intro map_cong) auto
  have b: "concat (map (\<lambda>k. body (int k)) [nat c..<nat n]) = []"
    using high c by (auto simp: concat_eq_Nil_conv intro!: high)
  show ?thesis
    unfolding for_loop_concat by (simp add: split a b)
qed


lemma tile_uploads_for_loop:
  "tile_uploads (for_loop i n body) = for_loop i n (\<lambda>k. tile_uploads (body k))"
proof (induction i n body rule: for_loop.induct)
  case (1 i n body)
  show ?case
  proof (cases "i < n")
    case True
    then show ?thesis
      using 1 [OF True]
      by (simp add: for_loop_step [of i n body]
            for_loop_step [of i n "\<lambda>k. tile_uploads (body k)"] tile_uploads_append)
  next
    case False
    then show ?thesis by (simp add: for_loop_done tile_uploads_Nil)
  qed
qed

lemma for_loop_empty:
  assumes "\<And>k. 0 \<le> k \<Longrightarrow> k < n \<Longrightarrow> body k = []"
  shows "for_loop 0 n body = []"
proof (cases "0 \<le> n")
  case True
  from for_loop_prefix [of 0 n body "\<lambda>k. []"] True assms show ?thesis
    by simp
next
  case False
  then show ?thesis by (simp add: for_loop_done)
qed

lemma columns_uploaded:
  fixes w k :: int
  shows "k < (w + 251) div 254 \<longleftrightarrow> 254 * k < w - 2"
proof -
  define q where "q = (w + 251) div 254"
  define r where "r = (w + 251) mod 254"
  have r: "0 \<le> r" "r < 254"
    by (simp_all add: r_def)
  have eq: "w + 251 = 254 * q + r"
    by (simp add: q_def r_def)
  show ?thesis
    unfolding q_def [symmetric] using r eq by linarith
qed

lemma ceiling_columns:
  "\<lceil>real_of_int (w - 2) / 254\<rceil> = (w + 251) div 254"
  using ceiling_div_const [of 254 "w - 2"] by simp

lemma if_less_min: "(if a < b then a else b) = min a (b::int)"
  by (simp add: min_def)

lemma unclipped_tile:
  fixes fl :: "'f float_ops" and rect :: 'p
  assumes noclip: "\<not> use_clipping fl clip_min_x clip_min_y clip_max_x clip_max_y"
  shows "tile_uploads
           (draw_subpart fl pos texco x y img_w img_h format gl_type rect scaleX scaleY
              clip_min_x clip_min_y clip_max_x clip_max_y xzoom yzoom
              256 256 2 254 254 components sx sy) =
         (if 254 * sx < img_w - 2 \<and> 254 * sy < img_h - 2
          then [glTexSubImage2D GL_TEXTURE_2D 0 0 0
                  (min (img_w - 254 * sx) 256) (min (img_h - 254 * sy) 256) format
                  (if gl_type = GL_FLOAT then GL_FLOAT else GL_UNSIGNED_BYTE) rect
                  (size_t_wrap (sy * 254 * img_w * components +
                                int32_wrap (sx * 254 * components)))]
          else [])"
proof (cases "254 * sx < img_w - 2 \<and> 254 * sy < img_h - 2")
  case True
  then have size: "2 < (if img_w - sx * 254 < 256 then img_w - sx * 254 else 256)"
      "2 < (if img_h - sy * 254 < 256 then img_h - sy * 254 else 256)"
    by simp_all
  show ?thesis
    using True
    by (simp add: draw_subpart_tile [OF noclip size] if_less_min mult.commute)
next
  case False
  then have "(if img_w - sx * 254 < 256 then img_w - sx * 254 else 256) \<le> 2 \<or>
             (if img_h - sy * 254 < 256 then img_h - sy * 254 else 256) \<le> 2"
    by auto
  then have "draw_subpart fl pos texco x y img_w img_h format gl_type rect scaleX scaleY
              clip_min_x clip_min_y clip_max_x clip_max_y xzoom yzoom
              256 256 2 254 254 components sx sy = []"
    by (rule draw_subpart_skipped)
  with False show ?thesis
    by (simp add: tile_uploads_Nil)
qed


lemma columns_bounds:
  assumes "0 \<le> w" "w \<le> INT_MAX - 253"
  shows "0 \<le> (w + 251) div 254" and "(w + 251) div 254 \<le> nsubparts w 254"
proof -
  show "0 \<le> (w + 251) div 254"
    using assms by (simp add: pos_imp_zdiv_nonneg_iff)
  have "nsubparts w 254 = (w + (254 - 1)) div 254"
    using assms by (intro nsubparts_eq) simp_all
  moreover have "(w + 251) div 254 \<le> (w + (254 - 1)) div 254"
    by (intro zdiv_mono1) simp_all
  ultimately show "(w + 251) div 254 \<le> nsubparts w 254"
    by simp
qed

lemma imm_tile_grid:
  fixes fl :: "'f float_ops" and rect :: 'p
  assumes big: "256 < img_w \<or> 256 < img_h"
    and dims: "0 \<le> img_w" "img_w \<le> INT_MAX - 253" "0 \<le> img_h" "img_h \<le> INT_MAX - 253"
    and fmt: "format = GL_RGBA \<or> format = GL_RGB \<or> format = GL_RED"
    and noclip: "\<not> use_clipping fl clip_min_x clip_min_y clip_max_x clip_max_y"
  shows "tile_uploads (fst (immDrawPixelsTexScaled_clipping fl env texid x y
            img_w img_h format gl_type zoomfilter rect scaleX scaleY
            clip_min_x clip_min_y clip_max_x clip_max_y xzoom yzoom color)) =
         concat (map (\<lambda>sy. map (\<lambda>sx.
             glTexSubImage2D GL_TEXTURE_2D 0 0 0
               (min (img_w - 254 * int sx) 256) (min (img_h - 254 * int sy) 256) format
               (if gl_type = GL_FLOAT then GL_FLOAT else GL_UNSIGNED_BYTE) rect
               (size_t_wrap
                  (int sy * 254 * img_w *
                     (if format = GL_RGBA then 4 else if format = GL_RGB then 3 else 1) +
                   int32_wrap (int sx * 254 *
                     (if format = GL_RGBA then 4 else if format = GL_RGB then 3 else 1)))))
             [0..<nat \<lceil>real_of_int (img_w - 2) / 254\<rceil>])
           [0..<nat \<lceil>real_of_int (img_h - 2) / 254\<rceil>])"
proof -
  define comps :: int where "comps = (if format = GL_RGBA then 4 else if format = GL_RGB then 3 else 1)"
  define body where "body = (\<lambda>subpart_y subpart_x.
      draw_subpart fl (attrib_pos env) (attrib_texco env) x y img_w img_h format
         gl_type rect scaleX scaleY clip_min_x clip_min_y clip_max_x clip_max_y
         xzoom yzoom 256 256 2 254 254 comps subpart_x subpart_y)"
  define tile :: "int \<Rightarrow> int \<Rightarrow> ('f, 'p) gl_call" where "tile = (\<lambda>sx sy.
      glTexSubImage2D GL_TEXTURE_2D 0 0 0
        (min (img_w - 254 * sx) 256) (min (img_h - 254 * sy) 256) format
        (if gl_type = GL_FLOAT then GL_FLOAT else GL_UNSIGNED_BYTE) rect
        (size_t_wrap (sy * 254 * img_w * comps + int32_wrap (sx * 254 * comps))))"
  define cx where "cx = (img_w + 251) div 254"
  define cy where "cy = (img_h + 251) div 254"
  have s: "seamless_mode 256 256 img_w img_h = 2"
    using big by (simp add: seamless_mode_256)
  have calls: "tile_uploads (fst (immDrawPixelsTexScaled_clipping fl env texid x y
            img_w img_h format gl_type zoomfilter rect scaleX scaleY
            clip_min_x clip_min_y clip_max_x clip_max_y xzoom yzoom color)) =
      for_loop 0 (nsubparts img_h 254)
        (\<lambda>sy. for_loop 0 (nsubparts img_w 254) (\<lambda>sx. tile_uploads (body sy sx)))"
    by (simp add: imm_tile_uploads [OF fmt] s body_def comps_def tile_uploads_for_loop)
  have one: "tile_uploads (body sy sx) = (if sx < cx \<and> sy < cy then [tile sx sy] else [])"
    for sy sx
    unfolding body_def tile_def cx_def cy_def columns_uploaded
    by (rule unclipped_tile [OF noclip])
  have cxb: "0 \<le> cx" "cx \<le> nsubparts img_w 254"
    unfolding cx_def using dims by (simp_all add: columns_bounds)
  have cyb: "0 \<le> cy" "cy \<le> nsubparts img_h 254"
    unfolding cy_def using dims by (simp_all add: columns_bounds)
  have row: "for_loop 0 (nsubparts img_w 254) (\<lambda>sx. tile_uploads (body sy sx)) =
      map (\<lambda>k. tile (int k) sy) [0..<nat cx]" if "sy < cy" for sy
  proof -
    have "for_loop 0 (nsubparts img_w 254) (\<lambda>sx. tile_uploads (body sy sx)) =
        concat (map (\<lambda>k. [tile (int k) sy]) [0..<nat cx])"
      using cxb that by (intro for_loop_prefix) (simp_all add: one)
    then show ?thesis by simp
  qed
  have norow: "for_loop 0 (nsubparts img_w 254) (\<lambda>sx. tile_uploads (body sy sx)) = []"
    if "cy \<le> sy" for sy
    using that by (intro for_loop_empty) (simp add: one)
  have grid: "for_loop 0 (nsubparts img_h 254)
        (\<lambda>sy. for_loop 0 (nsubparts img_w 254) (\<lambda>sx. tile_uploads (body sy sx))) =
      concat (map (\<lambda>j. map (\<lambda>k. tile (int k) (int j)) [0..<nat cx]) [0..<nat cy])"
    using cyb by (intro for_loop_prefix) (simp_all add: row norow)
  show ?thesis
    unfolding calls grid tile_def comps_def cx_def cy_def ceiling_columns
    by (rule refl)
qed

lemma imm_unsupported_format:
  fixes fl :: "'f float_ops" and rect :: 'p
  assumes "format \<noteq> GL_RGBA \<and> format \<noteq> GL_RGB \<and> format \<noteq> GL_RED"
  shows "tile_uploads (fst (immDrawPixelsTexScaled_clipping fl env texid x y img_w img_h format
            gl_type zoomfilter rect scaleX scaleY clip_min_x clip_min_y clip_max_x clip_max_y
            xzoom yzoom color)) = []"
  using imm_calls_structure [of fl env texid x y img_w img_h format gl_type zoomfilter rect
      scaleX scaleY clip_min_x clip_min_y clip_max_x clip_max_y xzoom yzoom color]
  unfolding if_P [OF assms]
  by (elim exE conjE) (simp add: tile_uploads_append tile_uploads_no_upload tile_uploads_Nil)

lemma draw_subpart_clipped_left:
  assumes "use_clipping fl clip_min_x clip_min_y clip_max_x clip_max_y"
    and "f_less fl
           (f_add fl (f_add fl x (f_mul fl (f_of_int fl (subpart_x * offset_x)) xzoom))
              (f_mul fl (f_mul fl (f_of_int fl
                 ((if img_w - subpart_x * offset_x < tex_w then img_w - subpart_x * offset_x
                   else tex_w) -
                  (if seamless \<noteq> 0 \<and> img_w - subpart_x * offset_x > tex_w then 1 else 0)))
                 xzoom) scaleX))
           clip_min_x"
  shows "draw_subpart fl pos texco x y img_w img_h format gl_type rect scaleX scaleY
            clip_min_x clip_min_y clip_max_x clip_max_y xzoom yzoom
            tex_w tex_h seamless offset_x offset_y components subpart_x subpart_y = []"
  unfolding draw_subpart_def Let_def
  using assms by simp


lemma length_grid:
  "length (concat (map (\<lambda>j. map (f j) [0..<a]) [0..<b])) = a * b"
  by (simp add: length_concat o_def sum_list_triv)

text \<open>
  C1, as the code has it. The cached work texture is 256 by 256. If the image is wider or
  higher than that, seamless mode is on (2) and, for a dimension from 0 to \<open>INT_MAX - 253\<close>,
  the loop along it visits as many subparts as the ceiling of the dimension over 254; a
  subpart that is at most 2 pixels wide or high is skipped. With both dimensions in that
  range, a supported format and clipping off, the subparts uploaded are therefore the first
  \<open>\<lceil>(img_w - 2) / 254\<rceil>\<close> of every one of the first \<open>\<lceil>(img_h - 2) / 254\<rceil>\<close> rows,
  row by row; subpart \<open>(sx, sy)\<close> is \<open>min (img_w - 254 sx) 256\<close> wide and
  \<open>min (img_h - 254 sy) 256\<close> high and is read from the element of the image with index
  \<open>254 sy img_w c + 254 sx c\<close>, \<open>c\<close> the number of components (the second summand
  computed in \<open>int\<close>, the sum in \<open>size_t\<close>). Otherwise seamless mode is off (0); when
  both dimensions are at least 1 the two counts are 1, and for a supported format with
  clipping off exactly one subpart is uploaded, the whole image. Every upload of every call
  lies inside the work texture, so it is at most 256 wide and 256 high.
\<close>

theorem immDrawPixelsTexScaled_clipping_tiling:
  fixes fl :: "'f float_ops" and rect :: 'p
  shows
   "fst (snd (get_cached_work_texture env texid :: ('f, 'p) gl_call list \<times> int \<times> int \<times> int)) = 256 \<and>
    fst (snd (snd (get_cached_work_texture env texid
                     :: ('f, 'p) gl_call list \<times> int \<times> int \<times> int))) = 256 \<and>
    (256 < img_w \<or> 256 < img_h \<longrightarrow> seamless_mode 256 256 img_w img_h = 2) \<and>
    ((256 < img_w \<or> 256 < img_h) \<and> 0 \<le> img_w \<and> img_w \<le> INT_MAX - 253 \<longrightarrow>
       nsubparts img_w (256 - seamless_mode 256 256 img_w img_h) =
         \<lceil>real_of_int img_w / (256 - 2)\<rceil>) \<and>
    ((256 < img_w \<or> 256 < img_h) \<and> 0 \<le> img_h \<and> img_h \<le> INT_MAX - 253 \<longrightarrow>
       nsubparts img_h (256 - seamless_mode 256 256 img_w img_h) =
         \<lceil>real_of_int img_h / (256 - 2)\<rceil>) \<and>
    ((256 < img_w \<or> 256 < img_h) \<and>
     0 \<le> img_w \<and> img_w \<le> INT_MAX - 253 \<and> 0 \<le> img_h \<and> img_h \<le> INT_MAX - 253 \<and>
     (format = GL_RGBA \<or> format = GL_RGB \<or> format = GL_RED) \<and>
     \<not> use_clipping fl clip_min_x clip_min_y clip_max_x clip_max_y \<longrightarrow>
       tile_uploads (fst (immDrawPixelsTexScaled_clipping fl env texid x y img_w img_h format
            gl_type zoomfilter rect scaleX scaleY clip_min_x clip_min_y clip_max_x clip_max_y
            xzoom yzoom color)) =
         concat (map (\<lambda>sy. map (\<lambda>sx.
             glTexSubImage2D GL_TEXTURE_2D 0 0 0
               (min (img_w - 254 * int sx) 256) (min (img_h - 254 * int sy) 256) format
               (if gl_type = GL_FLOAT then GL_FLOAT else GL_UNSIGNED_BYTE) rect
               (size_t_wrap
                  (int sy * 254 * img_w *
                     (if format = GL_RGBA then 4 else if format = GL_RGB then 3 else 1) +
                   int32_wrap (int sx * 254 *
                     (if format = GL_RGBA then 4 else if format = GL_RGB then 3 else 1)))))
             [0..<nat \<lceil>real_of_int (img_w - 2) / 254\<rceil>])
           [0..<nat \<lceil>real_of_int (img_h - 2) / 254\<rceil>]) \<and>
       length (tile_uploads (fst (immDrawPixelsTexScaled_clipping fl env texid x y img_w img_h
            format gl_type zoomfilter rect scaleX scaleY clip_min_x clip_min_y clip_max_x
            clip_max_y xzoom yzoom color))) =
         nat \<lceil>real_of_int (img_w - 2) / 254\<rceil> * nat \<lceil>real_of_int (img_h - 2) / 254\<rceil>) \<and>
    (\<not> (256 < img_w \<or> 256 < img_h) \<longrightarrow> seamless_mode 256 256 img_w img_h = 0) \<and>
    (1 \<le> img_w \<and> img_w \<le> 256 \<and> 1 \<le> img_h \<and> img_h \<le> 256 \<longrightarrow>
       nsubparts img_w (256 - seamless_mode 256 256 img_w img_h) = 1 \<and>
       \<lceil>real_of_int img_w / 256\<rceil> = 1 \<and>
       nsubparts img_h (256 - seamless_mode 256 256 img_w img_h) = 1 \<and>
       \<lceil>real_of_int img_h / 256\<rceil> = 1) \<and>
    (1 \<le> img_w \<and> img_w \<le> 256 \<and> 1 \<le> img_h \<and> img_h \<le> 256 \<and>
     (format = GL_RGBA \<or> format = GL_RGB \<or> format = GL_RED) \<and>
     \<not> use_clipping fl clip_min_x clip_min_y clip_max_x clip_max_y \<longrightarrow>
       tile_uploads (fst (immDrawPixelsTexScaled_clipping fl env texid x y img_w img_h format
            gl_type zoomfilter rect scaleX scaleY clip_min_x clip_min_y clip_max_x clip_max_y
            xzoom yzoom color)) =
         [glTexSubImage2D GL_TEXTURE_2D 0 0 0 img_w img_h format
            (if gl_type = GL_FLOAT then GL_FLOAT else GL_UNSIGNED_BYTE) rect 0]) \<and>
    (\<forall>c \<in> set (fst (immDrawPixelsTexScaled_clipping fl env texid x y img_w img_h format
            gl_type zoomfilter rect scaleX scaleY clip_min_x clip_min_y clip_max_x clip_max_y
            xzoom yzoom color)).
       upload_fits 256 256 c)"
proof -
  have size: "fst (snd (get_cached_work_texture env texid
                     :: ('f, 'p) gl_call list \<times> int \<times> int \<times> int)) = 256"
    "fst (snd (snd (get_cached_work_texture env texid
                     :: ('f, 'p) gl_call list \<times> int \<times> int \<times> int))) = 256"
    by (simp_all add: get_cached_work_texture_def Let_def)
  have big: "256 < img_w \<or> 256 < img_h \<longrightarrow> seamless_mode 256 256 img_w img_h = 2"
    by (simp add: seamless_mode_256)
  have count: "(256 < img_w \<or> 256 < img_h) \<and> 0 \<le> img \<and> img \<le> INT_MAX - 253 \<longrightarrow>
       nsubparts img (256 - seamless_mode 256 256 img_w img_h) =
         \<lceil>real_of_int img / (256 - 2)\<rceil>" for img
    using nsubparts_ceiling [of img] by (simp add: seamless_mode_256)
  have grid: "(256 < img_w \<or> 256 < img_h) \<and>
     0 \<le> img_w \<and> img_w \<le> INT_MAX - 253 \<and> 0 \<le> img_h \<and> img_h \<le> INT_MAX - 253 \<and>
     (format = GL_RGBA \<or> format = GL_RGB \<or> format = GL_RED) \<and>
     \<not> use_clipping fl clip_min_x clip_min_y clip_max_x clip_max_y \<longrightarrow>
       tile_uploads (fst (immDrawPixelsTexScaled_clipping fl env texid x y img_w img_h format
            gl_type zoomfilter rect scaleX scaleY clip_min_x clip_min_y clip_max_x clip_max_y
            xzoom yzoom color)) =
         concat (map (\<lambda>sy. map (\<lambda>sx.
             glTexSubImage2D GL_TEXTURE_2D 0 0 0
               (min (img_w - 254 * int sx) 256) (min (img_h - 254 * int sy) 256) format
               (if gl_type = GL_FLOAT then GL_FLOAT else GL_UNSIGNED_BYTE) rect
               (size_t_wrap
                  (int sy * 254 * img_w *
                     (if format = GL_RGBA then 4 else if format = GL_RGB then 3 else 1) +
                   int32_wrap (int sx * 254 *
                     (if format = GL_RGBA then 4 else if format = GL_RGB then 3 else 1)))))
             [0..<nat \<lceil>real_of_int (img_w - 2) / 254\<rceil>])
           [0..<nat \<lceil>real_of_int (img_h - 2) / 254\<rceil>]) \<and>
       length (tile_uploads (fst (immDrawPixelsTexScaled_clipping fl env texid x y img_w img_h
            format gl_type zoomfilter rect scaleX scaleY clip_min_x clip_min_y clip_max_x
            clip_max_y xzoom yzoom color))) =
         nat \<lceil>real_of_int (img_w - 2) / 254\<rceil> * nat \<lceil>real_of_int (img_h - 2) / 254\<rceil>"
  proof (intro impI, elim conjE)
    assume a: "256 < img_w \<or> 256 < img_h" "0 \<le> img_w" "img_w \<le> INT_MAX - 253"
      "0 \<le> img_h" "img_h \<le> INT_MAX - 253"
      "format = GL_RGBA \<or> format = GL_RGB \<or> format = GL_RED"
      "\<not> use_clipping fl clip_min_x clip_min_y clip_max_x clip_max_y"
    note g = imm_tile_grid [OF a, of env texid x y gl_type zoomfilter rect scaleX scaleY
        xzoom yzoom color]
    show "tile_uploads (fst (immDrawPixelsTexScaled_clipping fl env texid x y img_w img_h format
            gl_type zoomfilter rect scaleX scaleY clip_min_x clip_min_y clip_max_x clip_max_y
            xzoom yzoom color)) =
         concat (map (\<lambda>sy. map (\<lambda>sx.
             glTexSubImage2D GL_TEXTURE_2D 0 0 0
               (min (img_w - 254 * int sx) 256) (min (img_h - 254 * int sy) 256) format
               (if gl_type = GL_FLOAT then GL_FLOAT else GL_UNSIGNED_BYTE) rect
               (size_t_wrap
                  (int sy * 254 * img_w *
                     (if format = GL_RGBA then 4 else if format = GL_RGB then 3 else 1) +
                   int32_wrap (int sx * 254 *
                     (if format = GL_RGBA then 4 else if format = GL_RGB then 3 else 1)))))
             [0..<nat \<lceil>real_of_int (img_w - 2) / 254\<rceil>])
           [0..<nat \<lceil>real_of_int (img_h - 2) / 254\<rceil>]) \<and>
       length (tile_uploads (fst (immDrawPixelsTexScaled_clipping fl env texid x y img_w img_h
            format gl_type zoomfilter rect scaleX scaleY clip_min_x clip_min_y clip_max_x
            clip_max_y xzoom yzoom color))) =
         nat \<lceil>real_of_int (img_w - 2) / 254\<rceil> * nat \<lceil>real_of_int (img_h - 2) / 254\<rceil>"
      unfolding g length_grid by (intro conjI refl)
  qed
  have small: "\<not> (256 < img_w \<or> 256 < img_h) \<longrightarrow> seamless_mode 256 256 img_w img_h = 0"
    by (simp add: seamless_mode_256)
  have one: "1 \<le> img_w \<and> img_w \<le> 256 \<and> 1 \<le> img_h \<and> img_h \<le> 256 \<longrightarrow>
       nsubparts img_w (256 - seamless_mode 256 256 img_w img_h) = 1 \<and>
       \<lceil>real_of_int img_w / 256\<rceil> = 1 \<and>
       nsubparts img_h (256 - seamless_mode 256 256 img_w img_h) = 1 \<and>
       \<lceil>real_of_int img_h / 256\<rceil> = 1"
    by (simp add: seamless_mode_256 nsubparts_one ceiling_one)
  have single: "1 \<le> img_w \<and> img_w \<le> 256 \<and> 1 \<le> img_h \<and> img_h \<le> 256 \<and>
     (format = GL_RGBA \<or> format = GL_RGB \<or> format = GL_RED) \<and>
     \<not> use_clipping fl clip_min_x clip_min_y clip_max_x clip_max_y \<longrightarrow>
       tile_uploads (fst (immDrawPixelsTexScaled_clipping fl env texid x y img_w img_h format
            gl_type zoomfilter rect scaleX scaleY clip_min_x clip_min_y clip_max_x clip_max_y
            xzoom yzoom color)) =
         [glTexSubImage2D GL_TEXTURE_2D 0 0 0 img_w img_h format
            (if gl_type = GL_FLOAT then GL_FLOAT else GL_UNSIGNED_BYTE) rect 0]"
    by (intro impI, elim conjE, rule imm_single_tile; assumption)
  have fits: "\<forall>c \<in> set (fst (immDrawPixelsTexScaled_clipping fl env texid x y img_w img_h format
            gl_type zoomfilter rect scaleX scaleY clip_min_x clip_min_y clip_max_x clip_max_y
            xzoom yzoom color)).
       upload_fits 256 256 c"
    by (intro ballI) (rule imm_uploads_fit)
  from size big count [of img_w] count [of img_h] grid small one single fits
  show ?thesis by (intro conjI)
qed


theorem immDrawPixelsTexScaled_clipping_tiling_witness:
  "nsubparts 300 (256 - seamless_mode 256 256 300 100) = 2 \<and>
   seamless_mode 256 256 300 100 = 2 \<and>
   tile_uploads (fst (immDrawPixelsTexScaled_clipping
       \<lparr>f_zero = 0::real, f_one = 1, f_of_int = real_of_int, f_add = (+), f_mul = (*),
        f_div = (/), f_less = (<)\<rparr>
       \<lparr>generated_texture = 1, attrib_pos = 0, attrib_texco = 1, current_program = 0,
        color_location = -1\<rparr>
       (-1) 0 0 300 100 GL_RGBA GL_UNSIGNED_BYTE GL_LINEAR () 1 1 0 0 0 0 1 1 None)) =
     [glTexSubImage2D GL_TEXTURE_2D 0 0 0 256 100 GL_RGBA GL_UNSIGNED_BYTE () 0,
      glTexSubImage2D GL_TEXTURE_2D 0 0 0 46 100 GL_RGBA GL_UNSIGNED_BYTE () 1016] \<and>
   tile_uploads (fst (immDrawPixelsTexScaled_clipping
       \<lparr>f_zero = 0::real, f_one = 1, f_of_int = real_of_int, f_add = (+), f_mul = (*),
        f_div = (/), f_less = (<)\<rparr>
       \<lparr>generated_texture = 1, attrib_pos = 0, attrib_texco = 1, current_program = 0,
        color_location = -1\<rparr>
       (-1) 0 0 200 100 GL_RGBA GL_UNSIGNED_BYTE GL_LINEAR () 1 1 0 0 0 0 1 1 None)) =
     [glTexSubImage2D GL_TEXTURE_2D 0 0 0 200 100 GL_RGBA GL_UNSIGNED_BYTE () 0] \<and>
   list_all (upload_fits 256 256) (fst (immDrawPixelsTexScaled_clipping
       \<lparr>f_zero = 0::real, f_one = 1, f_of_int = real_of_int, f_add = (+), f_mul = (*),
        f_div = (/), f_less = (<)\<rparr>
       \<lparr>generated_texture = 1, attrib_pos = 0, attrib_texco = 1, current_program = 0,
        color_location = -1\<rparr>
       (-1) 0 0 200 100 GL_RGBA GL_UNSIGNED_BYTE GL_LINEAR () 1 1 0 0 0 0 1 1 None))"
proof -
  have c: "\<lceil>real_of_int 300 / (256 - 2)\<rceil> = (2::int)"
    by (simp add: ceiling_eq_iff)
  have n: "nat ((300 + 251) div 254) = 2" "nat ((100 + 251) div 254) = 1"
    by simp_all
  have l: "[0..<2] = [0, 1]" "[0..<1] = [0]"
    by (simp_all add: upt_rec)
  note big = immDrawPixelsTexScaled_clipping_tiling
    [where img_w = 300 and img_h = 100 and format = GL_RGBA and gl_type = GL_UNSIGNED_BYTE
       and fl = "\<lparr>f_zero = 0::real, f_one = 1, f_of_int = real_of_int, f_add = (+), f_mul = (*),
        f_div = (/), f_less = (<)\<rparr>"
       and clip_min_x = 0 and clip_min_y = 0 and clip_max_x = 0 and clip_max_y = 0
       and env = "\<lparr>generated_texture = 1, attrib_pos = 0, attrib_texco = 1, current_program = 0,
        color_location = -1\<rparr>"
       and texid = "-1" and x = 0 and y = 0 and zoomfilter = GL_LINEAR and rect = "()"
       and scaleX = 1 and scaleY = 1 and xzoom = 1 and yzoom = 1 and color = None]
  note small = immDrawPixelsTexScaled_clipping_tiling
    [where img_w = 200 and img_h = 100 and format = GL_RGBA and gl_type = GL_UNSIGNED_BYTE
       and fl = "\<lparr>f_zero = 0::real, f_one = 1, f_of_int = real_of_int, f_add = (+), f_mul = (*),
        f_div = (/), f_less = (<)\<rparr>"
       and clip_min_x = 0 and clip_min_y = 0 and clip_max_x = 0 and clip_max_y = 0
       and env = "\<lparr>generated_texture = 1, attrib_pos = 0, attrib_texco = 1, current_program = 0,
        color_location = -1\<rparr>"
       and texid = "-1" and x = 0 and y = 0 and zoomfilter = GL_LINEAR and rect = "()"
       and scaleX = 1 and scaleY = 1 and xzoom = 1 and yzoom = 1 and color = None]
  have a: "nsubparts 300 (256 - seamless_mode 256 256 300 100) = 2"
    "seamless_mode 256 256 300 100 = 2"
    using big c by (simp_all add: INT_MAX_def seamless_mode_256)
  have g: "tile_uploads (fst (immDrawPixelsTexScaled_clipping
       \<lparr>f_zero = 0::real, f_one = 1, f_of_int = real_of_int, f_add = (+), f_mul = (*),
        f_div = (/), f_less = (<)\<rparr>
       \<lparr>generated_texture = 1, attrib_pos = 0, attrib_texco = 1, current_program = 0,
        color_location = -1\<rparr>
       (-1) 0 0 300 100 GL_RGBA GL_UNSIGNED_BYTE GL_LINEAR () 1 1 0 0 0 0 1 1 None)) =
     [glTexSubImage2D GL_TEXTURE_2D 0 0 0 256 100 GL_RGBA GL_UNSIGNED_BYTE () 0,
      glTexSubImage2D GL_TEXTURE_2D 0 0 0 46 100 GL_RGBA GL_UNSIGNED_BYTE () 1016]"
    using big [unfolded ceiling_columns n l]
    by (simp add: use_clipping_def INT_MAX_def GL_FLOAT_def GL_UNSIGNED_BYTE_def
          size_t_wrap_def int32_wrap_def)
  have b: "tile_uploads (fst (immDrawPixelsTexScaled_clipping
       \<lparr>f_zero = 0::real, f_one = 1, f_of_int = real_of_int, f_add = (+), f_mul = (*),
        f_div = (/), f_less = (<)\<rparr>
       \<lparr>generated_texture = 1, attrib_pos = 0, attrib_texco = 1, current_program = 0,
        color_location = -1\<rparr>
       (-1) 0 0 200 100 GL_RGBA GL_UNSIGNED_BYTE GL_LINEAR () 1 1 0 0 0 0 1 1 None)) =
     [glTexSubImage2D GL_TEXTURE_2D 0 0 0 200 100 GL_RGBA GL_UNSIGNED_BYTE () 0]"
    using small by (simp add: use_clipping_def GL_FLOAT_def GL_UNSIGNED_BYTE_def)
  have d: "list_all (upload_fits 256 256) (fst (immDrawPixelsTexScaled_clipping
       \<lparr>f_zero = 0::real, f_one = 1, f_of_int = real_of_int, f_add = (+), f_mul = (*),
        f_div = (/), f_less = (<)\<rparr>
       \<lparr>generated_texture = 1, attrib_pos = 0, attrib_texco = 1, current_program = 0,
        color_location = -1\<rparr>
       (-1) 0 0 200 100 GL_RGBA GL_UNSIGNED_BYTE GL_LINEAR () 1 1 0 0 0 0 1 1 None))"
    using small unfolding list_all_iff by blast
  from a g b d show ?thesis by (intro conjI)
qed

text \<open>
  The claim as written fails in each of these calls. An image of 510 by 10 pixels is
  oversized and \<open>\<lceil>510 / 254\<rceil> \<cdot> \<lceil>10 / 254\<rceil>\<close> is 3, but two subparts are uploaded, the
  third being 2 pixels wide. An image without pixels is not oversized, yet its subpart
  count is 0, not 1, and nothing is uploaded. Nothing is uploaded either for a format that
  is not supported, for an image that lies outside the clip rectangle, and for a width of
  2147483500, where the sum that gives the subpart count wraps around.
\<close>

theorem immDrawPixelsTexScaled_clipping_skips_subparts:
  "tile_uploads (fst (immDrawPixelsTexScaled_clipping
       \<lparr>f_zero = 0::real, f_one = 1, f_of_int = real_of_int, f_add = (+), f_mul = (*),
        f_div = (/), f_less = (<)\<rparr>
       \<lparr>generated_texture = 1, attrib_pos = 0, attrib_texco = 1, current_program = 0,
        color_location = -1\<rparr>
       (-1) 0 0 510 10 GL_RGBA GL_UNSIGNED_BYTE GL_LINEAR () 1 1 0 0 0 0 1 1 None)) =
     [glTexSubImage2D GL_TEXTURE_2D 0 0 0 256 10 GL_RGBA GL_UNSIGNED_BYTE () 0,
      glTexSubImage2D GL_TEXTURE_2D 0 0 0 256 10 GL_RGBA GL_UNSIGNED_BYTE () 1016] \<and>
   \<lceil>real_of_int 510 / (256 - 2)\<rceil> * \<lceil>real_of_int 10 / (256 - 2)\<rceil> = (3::int) \<and>
   nsubparts 0 (256 - seamless_mode 256 256 0 0) = 0 \<and>
   tile_uploads (fst (immDrawPixelsTexScaled_clipping
       \<lparr>f_zero = 0::real, f_one = 1, f_of_int = real_of_int, f_add = (+), f_mul = (*),
        f_div = (/), f_less = (<)\<rparr>
       \<lparr>generated_texture = 1, attrib_pos = 0, attrib_texco = 1, current_program = 0,
        color_location = -1\<rparr>
       (-1) 0 0 0 0 GL_RGBA GL_UNSIGNED_BYTE GL_LINEAR () 1 1 0 0 0 0 1 1 None)) = [] \<and>
   tile_uploads (fst (immDrawPixelsTexScaled_clipping
       \<lparr>f_zero = 0::real, f_one = 1, f_of_int = real_of_int, f_add = (+), f_mul = (*),
        f_div = (/), f_less = (<)\<rparr>
       \<lparr>generated_texture = 1, attrib_pos = 0, attrib_texco = 1, current_program = 0,
        color_location = -1\<rparr>
       (-1) 0 0 10 10 0 GL_UNSIGNED_BYTE GL_LINEAR () 1 1 0 0 0 0 1 1 None)) = [] \<and>
   tile_uploads (fst (immDrawPixelsTexScaled_clipping
       \<lparr>f_zero = 0::real, f_one = 1, f_of_int = real_of_int, f_add = (+), f_mul = (*),
        f_div = (/), f_less = (<)\<rparr>
       \<lparr>generated_texture = 1, attrib_pos = 0, attrib_texco = 1, current_program = 0,
        color_location = -1\<rparr>
       (-1) 0 0 10 10 GL_RGBA GL_UNSIGNED_BYTE GL_LINEAR () 1 1 100 100 200 200 1 1 None)) = [] \<and>
   tile_uploads (fst (immDrawPixelsTexScaled_clipping
       \<lparr>f_zero = 0::real, f_one = 1, f_of_int = real_of_int, f_add = (+), f_mul = (*),
        f_div = (/), f_less = (<)\<rparr>
       \<lparr>generated_texture = 1, attrib_pos = 0, attrib_texco = 1, current_program = 0,
        color_location = -1\<rparr>
       (-1) 0 0 2147483500 10 GL_RGBA GL_UNSIGNED_BYTE GL_LINEAR () 1 1 0 0 0 0 1 1 None)) = []"
proof -
  have fmt: "GL_RGBA = GL_RGBA \<or> GL_RGBA = GL_RGB \<or> GL_RGBA = GL_RED"
    by simp
  have noclip: "\<not> use_clipping
       \<lparr>f_zero = 0::real, f_one = 1, f_of_int = real_of_int, f_add = (+), f_mul = (*),
        f_div = (/), f_less = (<)\<rparr> 0 0 0 0"
    by (simp add: use_clipping_def)
  have dims: "256 < (510::int) \<or> 256 < (10::int)" "0 \<le> (510::int)" "510 \<le> INT_MAX - 253"
    "0 \<le> (10::int)" "10 \<le> INT_MAX - 253"
    by (simp_all add: INT_MAX_def)
  have n: "nat ((510 + 251) div 254) = 2" "nat ((10 + 251) div 254) = 1"
    by simp_all
  have l: "[0..<2] = [0, 1]" "[0..<1] = [0]"
    by (simp_all add: upt_rec)
  have skipped: "tile_uploads (fst (immDrawPixelsTexScaled_clipping
       \<lparr>f_zero = 0::real, f_one = 1, f_of_int = real_of_int, f_add = (+), f_mul = (*),
        f_div = (/), f_less = (<)\<rparr>
       \<lparr>generated_texture = 1, attrib_pos = 0, attrib_texco = 1, current_program = 0,
        color_location = -1\<rparr>
       (-1) 0 0 510 10 GL_RGBA GL_UNSIGNED_BYTE GL_LINEAR () 1 1 0 0 0 0 1 1 None)) =
     [glTexSubImage2D GL_TEXTURE_2D 0 0 0 256 10 GL_RGBA GL_UNSIGNED_BYTE () 0,
      glTexSubImage2D GL_TEXTURE_2D 0 0 0 256 10 GL_RGBA GL_UNSIGNED_BYTE () 1016]"
    unfolding imm_tile_grid [OF dims fmt noclip] ceiling_columns n l
    by (simp add: GL_FLOAT_def GL_UNSIGNED_BYTE_def size_t_wrap_def int32_wrap_def)
  have bound: "\<lceil>real_of_int 510 / (256 - 2)\<rceil> * \<lceil>real_of_int 10 / (256 - 2)\<rceil> = (3::int)"
  proof -
    have "\<lceil>real_of_int 510 / (256 - 2)\<rceil> = (3::int)" "\<lceil>real_of_int 10 / (256 - 2)\<rceil> = (1::int)"
      by (simp_all add: ceiling_eq_iff)
    then show ?thesis by simp
  qed
  have n0: "nsubparts 0 256 = 0"
    by (simp add: nsubparts_def int32_wrap_def c_div_def)
  have empty: "tile_uploads (fst (immDrawPixelsTexScaled_clipping
       \<lparr>f_zero = 0::real, f_one = 1, f_of_int = real_of_int, f_add = (+), f_mul = (*),
        f_div = (/), f_less = (<)\<rparr>
       \<lparr>generated_texture = 1, attrib_pos = 0, attrib_texco = 1, current_program = 0,
        color_location = -1\<rparr>
       (-1) 0 0 0 0 GL_RGBA GL_UNSIGNED_BYTE GL_LINEAR () 1 1 0 0 0 0 1 1 None)) = []"
    by (simp add: imm_tile_uploads [OF fmt] seamless_mode_256 n0 for_loop_done tile_uploads_Nil)
  have unsupported: "tile_uploads (fst (immDrawPixelsTexScaled_clipping
       \<lparr>f_zero = 0::real, f_one = 1, f_of_int = real_of_int, f_add = (+), f_mul = (*),
        f_div = (/), f_less = (<)\<rparr>
       \<lparr>generated_texture = 1, attrib_pos = 0, attrib_texco = 1, current_program = 0,
        color_location = -1\<rparr>
       (-1) 0 0 10 10 0 GL_UNSIGNED_BYTE GL_LINEAR () 1 1 0 0 0 0 1 1 None)) = []"
    by (rule imm_unsupported_format) (simp add: GL_RGBA_def GL_RGB_def GL_RED_def)
  have n10: "nsubparts 10 256 = 1"
    by (simp add: nsubparts_one)
  have clipped: "tile_uploads (fst (immDrawPixelsTexScaled_clipping
       \<lparr>f_zero = 0::real, f_one = 1, f_of_int = real_of_int, f_add = (+), f_mul = (*),
        f_div = (/), f_less = (<)\<rparr>
       \<lparr>generated_texture = 1, attrib_pos = 0, attrib_texco = 1, current_program = 0,
        color_location = -1\<rparr>
       (-1) 0 0 10 10 GL_RGBA GL_UNSIGNED_BYTE GL_LINEAR () 1 1 100 100 200 200 1 1 None)) = []"
    by (simp add: imm_tile_uploads [OF fmt] seamless_mode_256 n10 for_loop_single
          draw_subpart_clipped_left use_clipping_def tile_uploads_Nil)
  have nh: "nsubparts 2147483500 254 < 0" "nsubparts 10 254 = 1"
    by (simp_all add: nsubparts_def int32_wrap_def c_div_def)
  have huge: "tile_uploads (fst (immDrawPixelsTexScaled_clipping
       \<lparr>f_zero = 0::real, f_one = 1, f_of_int = real_of_int, f_add = (+), f_mul = (*),
        f_div = (/), f_less = (<)\<rparr>
       \<lparr>generated_texture = 1, attrib_pos = 0, attrib_texco = 1, current_program = 0,
        color_location = -1\<rparr>
       (-1) 0 0 2147483500 10 GL_RGBA GL_UNSIGNED_BYTE GL_LINEAR () 1 1 0 0 0 0 1 1 None)) = []"
    using nh(1)
    by (simp add: imm_tile_uploads [OF fmt] seamless_mode_256 nh(2) for_loop_single
          for_loop_done tile_uploads_Nil)
  from skipped bound n0 empty unsupported clipped huge show ?thesis
    by (simp add: seamless_mode_256)
qed

lemma no_clipping_at_zero:
  "\<not> f_less fl (f_zero fl) (f_zero fl) \<Longrightarrow>
   \<not> use_clipping fl (f_zero fl) (f_zero fl) (f_zero fl) (f_zero fl)"
  by (simp add: use_clipping_def)

text \<open>
  C2, as the code has it: the tiling is live in the \<open>imm\<close> routines. For an image wider
  or higher than the work texture, at least 3 and at most \<open>INT_MAX - 253\<close> pixels each
  way, and a supported format, \<open>immDrawPixelsTex\<close> and \<open>immDrawPixelsTexScaled\<close>
  upload at least two subparts, and so do \<open>immDrawPixelsTex_clipping\<close> and
  \<open>immDrawPixelsTexScaled_clipping\<close> when their clip rectangle is empty. (Comparing zero
  with itself is taken to be false.)
\<close>

theorem imm_entry_points_tile_oversized:
  fixes fl :: "'f float_ops" and rect :: 'p
  assumes big: "256 < img_w \<or> 256 < img_h"
    and dims: "3 \<le> img_w" "img_w \<le> INT_MAX - 253" "3 \<le> img_h" "img_h \<le> INT_MAX - 253"
    and fmt: "format = GL_RGBA \<or> format = GL_RGB \<or> format = GL_RED"
    and zero: "\<not> f_less fl (f_zero fl) (f_zero fl)"
  shows "2 \<le> length (tile_uploads (fst (immDrawPixelsTex fl env texid x y img_w img_h format
                  gl_type zoomfilter rect xzoom yzoom color))) \<and>
         2 \<le> length (tile_uploads (fst (immDrawPixelsTexScaled fl env texid x y img_w img_h format
                  gl_type zoomfilter rect scaleX scaleY xzoom yzoom color))) \<and>
         (\<not> use_clipping fl clip_min_x clip_min_y clip_max_x clip_max_y \<longrightarrow>
            2 \<le> length (tile_uploads (fst (immDrawPixelsTex_clipping fl env texid x y img_w img_h
                     format gl_type zoomfilter rect clip_min_x clip_min_y clip_max_x clip_max_y
                     xzoom yzoom color))) \<and>
            2 \<le> length (tile_uploads (fst (immDrawPixelsTexScaled_clipping fl env texid x y
                     img_w img_h format gl_type zoomfilter rect scaleX scaleY
                     clip_min_x clip_min_y clip_max_x clip_max_y xzoom yzoom color))))"
proof -
  note two = imm_two_tiles [OF big dims fmt]
  note off = no_clipping_at_zero [OF zero]
  have "2 \<le> length (tile_uploads (fst (immDrawPixelsTex fl env texid x y img_w img_h format
                  gl_type zoomfilter rect xzoom yzoom color)))"
    unfolding immDrawPixelsTex_def by (rule two [OF off])
  moreover have "2 \<le> length (tile_uploads (fst (immDrawPixelsTexScaled fl env texid x y
                  img_w img_h format gl_type zoomfilter rect scaleX scaleY xzoom yzoom color)))"
    unfolding immDrawPixelsTexScaled_def by (rule two [OF off])
  moreover have "\<not> use_clipping fl clip_min_x clip_min_y clip_max_x clip_max_y \<longrightarrow>
            2 \<le> length (tile_uploads (fst (immDrawPixelsTex_clipping fl env texid x y img_w img_h
                     format gl_type zoomfilter rect clip_min_x clip_min_y clip_max_x clip_max_y
                     xzoom yzoom color))) \<and>
            2 \<le> length (tile_uploads (fst (immDrawPixelsTexScaled_clipping fl env texid x y
                     img_w img_h format gl_type zoomfilter rect scaleX scaleY
                     clip_min_x clip_min_y clip_max_x clip_max_y xzoom yzoom color)))"
    unfolding immDrawPixelsTex_clipping_def by (intro impI conjI two)
  ultimately show ?thesis by (intro conjI)
qed

theorem imm_entry_points_tile_oversized_witness:
  "(256 < (300::int) \<or> 256 < (10::int)) \<and> 300 \<le> INT_MAX - 253 \<and>
   2 \<le> length (tile_uploads (fst (immDrawPixelsTex
       \<lparr>f_zero = 0::real, f_one = 1, f_of_int = real_of_int, f_add = (+), f_mul = (*),
        f_div = (/), f_less = (<)\<rparr>
       \<lparr>generated_texture = 1, attrib_pos = 0, attrib_texco = 1, current_program = 0,
        color_location = -1\<rparr>
       (-1) 0 0 300 10 GL_RGBA GL_UNSIGNED_BYTE GL_LINEAR () 1 1 None)))"
proof -
  have big: "256 < (300::int) \<or> 256 < (10::int)"
    by simp
  have dims: "3 \<le> (300::int)" "300 \<le> INT_MAX - 253" "3 \<le> (10::int)" "10 \<le> INT_MAX - 253"
    by (simp_all add: INT_MAX_def)
  have fmt: "GL_RGBA = GL_RGBA \<or> GL_RGBA = GL_RGB \<or> GL_RGBA = GL_RED"
    by simp
  have zero: "\<not> f_less
       \<lparr>f_zero = 0::real, f_one = 1, f_of_int = real_of_int, f_add = (+), f_mul = (*),
        f_div = (/), f_less = (<)\<rparr>
       (f_zero \<lparr>f_zero = 0::real, f_one = 1, f_of_int = real_of_int, f_add = (+), f_mul = (*),
        f_div = (/), f_less = (<)\<rparr>)
       (f_zero \<lparr>f_zero = 0::real, f_one = 1, f_of_int = real_of_int, f_add = (+), f_mul = (*),
        f_div = (/), f_less = (<)\<rparr>)"
    by simp
  from imm_entry_points_tile_oversized [OF big dims fmt zero]
  have "2 \<le> length (tile_uploads (fst (immDrawPixelsTex
       \<lparr>f_zero = 0::real, f_one = 1, f_of_int = real_of_int, f_add = (+), f_mul = (*),
        f_div = (/), f_less = (<)\<rparr>
       \<lparr>generated_texture = 1, attrib_pos = 0, attrib_texco = 1, current_program = 0,
        color_location = -1\<rparr>
       (-1) 0 0 300 10 GL_RGBA GL_UNSIGNED_BYTE GL_LINEAR () 1 1 None)))"
    by (rule conjunct1)
  with big dims(2) show ?thesis by (intro conjI)
qed

text \<open>
  The claim as written fails on the public \<open>immDrawPixelsTex\<close>: an image of 300 by 10
  pixels is uploaded as two subparts, of widths 256 and 46.
\<close>

theorem immDrawPixelsTex_tiles_oversized_image:
  "tile_uploads (fst (immDrawPixelsTex
       \<lparr>f_zero = 0::real, f_one = 1, f_of_int = real_of_int, f_add = (+), f_mul = (*),
        f_div = (/), f_less = (<)\<rparr>
       \<lparr>generated_texture = 1, attrib_pos = 0, attrib_texco = 1, current_program = 0,
        color_location = -1\<rparr>
       (-1) 0 0 300 10 GL_RGBA GL_UNSIGNED_BYTE GL_LINEAR () 1 1 None)) =
   [glTexSubImage2D GL_TEXTURE_2D 0 0 0 256 10 GL_RGBA GL_UNSIGNED_BYTE () 0,
    glTexSubImage2D GL_TEXTURE_2D 0 0 0 46 10 GL_RGBA GL_UNSIGNED_BYTE () 1016]"
proof -
  have fmt: "GL_RGBA = GL_RGBA \<or> GL_RGBA = GL_RGB \<or> GL_RGBA = GL_RED"
    by simp
  have noclip: "\<not> use_clipping
       \<lparr>f_zero = 0::real, f_one = 1, f_of_int = real_of_int, f_add = (+), f_mul = (*),
        f_div = (/), f_less = (<)\<rparr> 0 0 0 0"
    by (simp add: use_clipping_def)
  have n: "nsubparts 300 254 = 2" "nsubparts 10 254 = 1"
    by (simp_all add: nsubparts_def int32_wrap_def c_div_def)
  have loops: "for_loop 0 2 body = body 0 @ body 1" "for_loop 0 1 body = body 0"
    for body :: "int \<Rightarrow> (real, unit) gl_call list"
    by (simp_all add: for_loop_step [of 0 2] for_loop_step [of 1 2] for_loop_done for_loop_single)
  show ?thesis
    unfolding immDrawPixelsTex_def
    by (simp add: imm_tile_uploads [OF fmt] seamless_mode_256 n loops tile_uploads_append
          draw_subpart_tile [OF noclip [simplified]] size_t_wrap_def int32_wrap_def
          GL_FLOAT_def GL_UNSIGNED_BYTE_def)
qed

text \<open>
  C6: \<open>immDrawPixelsTex\<close> is \<open>immDrawPixelsTexScaled_clipping\<close> with both scales 1 and
  the four clip bounds 0, and \<open>immDrawPixelsTexScaled\<close> is the same routine with the given
  scales and the four clip bounds 0; with these bounds clipping is off, zero not being
  less than itself.
\<close>

theorem immDrawPixelsTex_wrappers:
  "immDrawPixelsTex fl env texid x y img_w img_h format gl_type zoomfilter rect xzoom yzoom color =
     immDrawPixelsTexScaled_clipping fl env texid x y img_w img_h format gl_type zoomfilter rect
       (f_one fl) (f_one fl) (f_zero fl) (f_zero fl) (f_zero fl) (f_zero fl) xzoom yzoom color \<and>
   immDrawPixelsTexScaled fl env texid x y img_w img_h format gl_type zoomfilter rect
       scaleX scaleY xzoom yzoom color =
     immDrawPixelsTexScaled_clipping fl env texid x y img_w img_h format gl_type zoomfilter rect
       scaleX scaleY (f_zero fl) (f_zero fl) (f_zero fl) (f_zero fl) xzoom yzoom color \<and>
   (\<not> f_less fl (f_zero fl) (f_zero fl) \<longrightarrow>
      \<not> use_clipping fl (f_zero fl) (f_zero fl) (f_zero fl) (f_zero fl))"
  by (simp add: immDrawPixelsTex_def immDrawPixelsTexScaled_def use_clipping_def)

theorem immDrawPixelsTex_wrappers_witness:
  "\<not> use_clipping
       \<lparr>f_zero = 0::real, f_one = 1, f_of_int = real_of_int, f_add = (+), f_mul = (*),
        f_div = (/), f_less = (<)\<rparr> 0 0 0 0 \<and>
   immDrawPixelsTex
       \<lparr>f_zero = 0::real, f_one = 1, f_of_int = real_of_int, f_add = (+), f_mul = (*),
        f_div = (/), f_less = (<)\<rparr>
       \<lparr>generated_texture = 1, attrib_pos = 0, attrib_texco = 1, current_program = 0,
        color_location = -1\<rparr>
       7 0 0 2 2 GL_RGBA GL_UNSIGNED_BYTE GL_LINEAR () 1 1 None =
   immDrawPixelsTexScaled_clipping
       \<lparr>f_zero = 0::real, f_one = 1, f_of_int = real_of_int, f_add = (+), f_mul = (*),
        f_div = (/), f_less = (<)\<rparr>
       \<lparr>generated_texture = 1, attrib_pos = 0, attrib_texco = 1, current_program = 0,
        color_location = -1\<rparr>
       7 0 0 2 2 GL_RGBA GL_UNSIGNED_BYTE GL_LINEAR () 1 1 0 0 0 0 1 1 None"
  using immDrawPixelsTex_wrappers
    [where fl = "\<lparr>f_zero = 0::real, f_one = 1, f_of_int = real_of_int, f_add = (+), f_mul = (*),
        f_div = (/), f_less = (<)\<rparr>"
       and env = "\<lparr>generated_texture = 1, attrib_pos = 0, attrib_texco = 1, current_program = 0,
        color_location = -1\<rparr>"
       and texid = 7 and x = 0 and y = 0 and img_w = 2 and img_h = 2 and format = GL_RGBA
       and gl_type = GL_UNSIGNED_BYTE and zoomfilter = GL_LINEAR and rect = "()"
       and xzoom = 1 and yzoom = 1 and color = None and scaleX = 1 and scaleY = 1]
  by simp

end
